theory Spec2Isabelle
  imports Main "HOL-Library.Word"
begin

section \<open>websocket_app: the data of \<^verbatim>\<open>src/bin/websocket_app/main.cpp\<close>\<close>

text \<open>
  The program is one translation unit: \<^verbatim>\<open>s_usage\<close>, the option table
  \<^verbatim>\<open>s_long_options\<close>, \<^verbatim>\<open>s_parse_options\<close> and \<^verbatim>\<open>main\<close>. Everything else it
  calls belongs to the libraries it links (the option scanner, the URI class, the log
  level names, the MQTT client). The program is modelled as it is written; what the
  libraries answer is a parameter of the model (the record \<open>crt\<close> below), and a run is
  the list of things the program does, in order, with the way it ends.
\<close>

subsection \<open>Log levels\<close>

text \<open>
  \<^verbatim>\<open>enum aws_log_level\<close>, which \<^verbatim>\<open>Aws::Crt::LogLevel\<close> mirrors value by value. The
  declaration is in the library headers, not in the program; the program names
  \<^verbatim>\<open>AWS_LL_NONE\<close> and \<^verbatim>\<open>LogLevel::Error\<close> and compares levels with \<^verbatim>\<open><\<close>, that is, by
  the enumerators' values.
\<close>

datatype aws_log_level =
  AWS_LL_NONE | AWS_LL_FATAL | AWS_LL_ERROR | AWS_LL_WARN | AWS_LL_INFO | AWS_LL_DEBUG | AWS_LL_TRACE

fun level_value :: "aws_log_level \<Rightarrow> nat" where
  "level_value AWS_LL_NONE = 0"
| "level_value AWS_LL_FATAL = 1"
| "level_value AWS_LL_ERROR = 2"
| "level_value AWS_LL_WARN = 3"
| "level_value AWS_LL_INFO = 4"
| "level_value AWS_LL_DEBUG = 5"
| "level_value AWS_LL_TRACE = 6"

subsection \<open>The URI object and the context struct\<close>

text \<open>
  What the program reads of an \<^verbatim>\<open>Io::Uri\<close>: whether it is initialised
  (\<^verbatim>\<open>operator bool\<close>), \<^verbatim>\<open>LastError()\<close>, \<^verbatim>\<open>GetFullUri()\<close>, \<^verbatim>\<open>GetHostName()\<close> and
  \<^verbatim>\<open>GetPort()\<close>. The port is kept as a natural number: the program stores it in a
  \<^verbatim>\<open>uint16_t\<close>, and the narrowing is written out where it happens.
\<close>

record io_uri =
  is_init :: bool
  LastError :: int
  GetFullUri :: string
  GetHostName :: string
  GetPort :: nat

text \<open>A default-constructed \<^verbatim>\<open>Io::Uri\<close>: not initialised, everything empty.\<close>

definition empty_uri :: io_uri where
  "empty_uri = \<lparr>is_init = False, LastError = 0, GetFullUri = [], GetHostName = [], GetPort = 0\<rparr>"

text \<open>
  \<^verbatim>\<open>struct app_ctx\<close> (lines 33 to 47). A \<^verbatim>\<open>const char *\<close> is a \<open>string option\<close>,
  \<open>None\<close> for the null pointer. The allocator and the zeroed
  \<^verbatim>\<open>tls_connection_options\<close> are never read by the program and are left out.
\<close>

record app_ctx =
  uri :: io_uri
  port :: "16 word"
  cacert :: "string option"
  cert :: "string option"
  key :: "string option"
  connect_timeout :: int
  TraceFile :: "string option"
  LogLevel :: aws_log_level

subsection \<open>What a run does\<close>

datatype log_target = LogToFile string | LogToStdout

text \<open>
  The configuration that \<^verbatim>\<open>main\<close> puts into the
  \<^verbatim>\<open>MqttClientConnectionConfigBuilder\<close> before \<^verbatim>\<open>Build()\<close>: the region of the
  \<^verbatim>\<open>WebsocketConfig\<close>, the argument of \<^verbatim>\<open>WithCertificateAuthority\<close> and the argument
  of \<^verbatim>\<open>WithEndpoint\<close>.
\<close>

record client_config_builder =
  signing_region :: string
  certificate_authority :: "string option"
  endpoint :: string

text \<open>
  The operations of an \<^verbatim>\<open>Mqtt::MqttConnection\<close>. The program calls \<^verbatim>\<open>Connect\<close> only;
  the other constructors are there so that a statement can say that an operation did or
  did not happen.
\<close>

datatype mqtt_op =
  Connect string bool nat
| Subscribe string
| Publish string string
| Unsubscribe string
| Disconnect

datatype action =
  Stderr string
| Stdout string
| InitializeLogging aws_log_level log_target
| CreateCredentialsProviderChainDefault
| Build client_config_builder
| NewConnection client_config_builder
| Mqtt mqtt_op

text \<open>
  How a piece of the program ends: the process has exited with a code (\<^verbatim>\<open>exit\<close>, or
  the return of \<^verbatim>\<open>main\<close>), it waits for ever, or it goes on with a value. Each carries
  the actions done so far.
\<close>

datatype 'a run =
  Exited "action list" int
| Blocked "action list"
| Proceed "action list" 'a

fun actions :: "'a run \<Rightarrow> action list" where
  "actions (Exited out code) = out"
| "actions (Blocked out) = out"
| "actions (Proceed out x) = out"

fun exited_with :: "'a run \<Rightarrow> int option" where
  "exited_with (Exited out code) = Some code"
| "exited_with (Blocked out) = None"
| "exited_with (Proceed out x) = None"

subsection \<open>The libraries' answers\<close>

datatype outcome = Succeeded | FailedWith int

text \<open>
  Everything the program asks of the code it links, none of which is in the program's
  file. \<open>Uri\<close> is the constructor \<^verbatim>\<open>Io::Uri(cursor, allocator)\<close>;
  \<open>string_to_log_level\<close> is \<^verbatim>\<open>aws_string_to_log_level\<close>, \<open>None\<close> when it leaves its
  output argument untouched; \<open>ErrorDebugString\<close> is \<^verbatim>\<open>aws_error_debug_str\<close>. The
  other fields say how this run's calls into the MQTT client end:
  \<open>provider_created\<close> whether the credentials provider is non-null, \<open>build_result\<close>
  and \<open>new_connection_result\<close> whether the built configuration and the connection are
  valid (with their \<^verbatim>\<open>LastError()\<close> otherwise), \<open>uuid\<close> the text of the generated
  \<^verbatim>\<open>UUID\<close>, \<open>connect_result\<close> what \<^verbatim>\<open>Connect\<close> returns, and \<open>connection_completed\<close>
  the arguments \<^verbatim>\<open>(errorCode, returnCode, sessionPresent)\<close> with which the library
  calls \<^verbatim>\<open>OnConnectionCompleted\<close>, \<open>None\<close> when it never does.
\<close>

record crt =
  Uri :: "string \<Rightarrow> io_uri"
  string_to_log_level :: "string \<Rightarrow> aws_log_level option"
  ErrorDebugString :: "int \<Rightarrow> string"
  provider_created :: bool
  build_result :: "client_config_builder \<Rightarrow> outcome"
  new_connection_result :: "client_config_builder \<Rightarrow> outcome"
  uuid :: string
  connect_result :: "string \<Rightarrow> bool \<Rightarrow> nat \<Rightarrow> outcome"
  connection_completed :: "(int \<times> int \<times> bool) option"

section \<open>The option scanner\<close>

text \<open>
  \<^verbatim>\<open>aws_cli_getopt_long\<close> is the option scanner of the library the program links
  (aws-c-common, \<^verbatim>\<open>command_line_parser.h\<close>); its code is not in the program's file.
  This section is a model of that library routine, not a translation of code of the
  program. A call looks at the next unread argument; an argument \<^verbatim>\<open>-x...\<close> is looked
  up in the table by the character after the dash, an argument \<^verbatim>\<open>--name\<close> by its
  whole name; an argument that does not start with a dash is a positional argument,
  answered with \<^verbatim>\<open>0x02\<close> (the comment at line 96 of the program says so); the
  option's value must stand in the option string, and a colon after it there makes the
  scanner take the next argument as \<^verbatim>\<open>aws_cli_optarg\<close>; \<^verbatim>\<open>'?'\<close> is the answer for
  anything else, and \<^verbatim>\<open>-1\<close> when no argument is left (line 84).
  The table and the option string themselves are the program's (lines 66 to 76, 83).
\<close>

datatype aws_cli_options_has_arg =
  AWS_CLI_OPTIONS_NO_ARGUMENT | AWS_CLI_OPTIONS_REQUIRED_ARGUMENT | AWS_CLI_OPTIONS_OPTIONAL_ARGUMENT

text \<open>
  \<^verbatim>\<open>struct aws_cli_option\<close>. \<open>name = None\<close> is the null name of the closing entry;
  \<open>flag\<close> says whether the \<^verbatim>\<open>flag\<close> pointer is set (it is null in every entry of the
  program's table).
\<close>

record aws_cli_option =
  name :: "string option"
  has_arg :: aws_cli_options_has_arg
  flag :: bool
  val :: int

text \<open>The code of a character, as the \<^verbatim>\<open>int\<close> that C makes of it.\<close>

abbreviation chr :: "char \<Rightarrow> int" where
  "chr c \<equiv> of_char c"

text \<open>\<^verbatim>\<open>s_long_options\<close>, lines 66 to 76, the closing entry included.\<close>

definition s_long_options :: "aws_cli_option list" where
  "s_long_options =
    [\<lparr>name = Some ''cacert'', has_arg = AWS_CLI_OPTIONS_REQUIRED_ARGUMENT, flag = False, val = chr CHR ''a''\<rparr>,
     \<lparr>name = Some ''cert'', has_arg = AWS_CLI_OPTIONS_REQUIRED_ARGUMENT, flag = False, val = chr CHR ''c''\<rparr>,
     \<lparr>name = Some ''key'', has_arg = AWS_CLI_OPTIONS_REQUIRED_ARGUMENT, flag = False, val = chr CHR ''e''\<rparr>,
     \<lparr>name = Some ''connect-timeout'', has_arg = AWS_CLI_OPTIONS_REQUIRED_ARGUMENT, flag = False, val = chr CHR ''f''\<rparr>,
     \<lparr>name = Some ''log'', has_arg = AWS_CLI_OPTIONS_REQUIRED_ARGUMENT, flag = False, val = chr CHR ''l''\<rparr>,
     \<lparr>name = Some ''verbose'', has_arg = AWS_CLI_OPTIONS_REQUIRED_ARGUMENT, flag = False, val = chr CHR ''v''\<rparr>,
     \<lparr>name = Some ''help'', has_arg = AWS_CLI_OPTIONS_NO_ARGUMENT, flag = False, val = chr CHR ''h''\<rparr>,
     \<lparr>name = None, has_arg = AWS_CLI_OPTIONS_NO_ARGUMENT, flag = False, val = 0\<rparr>]"

text \<open>The option string that \<^verbatim>\<open>s_parse_options\<close> passes, line 83.\<close>

definition optstring :: string where
  "optstring = ''a:b:c:e:f:H:d:g:M:GPHiko:t:l:v:VwWh''"

text \<open>
  The scanner's global variables. \<open>unread\<close> stands for \<^verbatim>\<open>aws_cli_optind\<close>: it is the
  part of \<^verbatim>\<open>argv\<close> from index \<^verbatim>\<open>aws_cli_optind\<close> on.
\<close>

record cli_state =
  unread :: "string list"
  aws_cli_on_arg :: bool
  aws_cli_optarg :: "string option"
  aws_cli_positional_arg :: "string option"

text \<open>
  The character of a C string at an index; the terminating NUL at its end.
\<close>

definition c_char_at :: "string \<Rightarrow> nat \<Rightarrow> int" where
  "c_char_at s i = (if i < length s then chr (s ! i) else 0)"

text \<open>
  The two table searches: both walk the table up to its closing entry (null name and
  value 0).
\<close>

fun s_find_option_from_char :: "aws_cli_option list \<Rightarrow> int \<Rightarrow> aws_cli_option option" where
  "s_find_option_from_char [] search_for = None"
| "s_find_option_from_char (option # longopts) search_for =
     (if val option \<noteq> 0 \<or> name option \<noteq> None then
        (if val option = search_for then Some option
         else s_find_option_from_char longopts search_for)
      else None)"

fun s_find_option_from_c_str :: "aws_cli_option list \<Rightarrow> string \<Rightarrow> aws_cli_option option" where
  "s_find_option_from_c_str [] search_for = None"
| "s_find_option_from_c_str (option # longopts) search_for =
     (if name option \<noteq> None \<or> val option \<noteq> 0 then
        (if name option = Some search_for then Some option
         else s_find_option_from_c_str longopts search_for)
      else None)"

text \<open>
  \<^verbatim>\<open>memchr\<close> on the option string, and the test of the character after the hit:
  \<open>None\<close> when the value is not in the string, else whether a colon follows.
\<close>

fun opt_takes_arg :: "string \<Rightarrow> int \<Rightarrow> bool option" where
  "opt_takes_arg [] v = None"
| "opt_takes_arg (c # cs) v =
     (if chr c = v then Some (c_char_at cs 0 = chr CHR '':'') else opt_takes_arg cs v)"

text \<open>
  The first half of a call: which table entry the next argument names, if any, and
  whether it is a positional argument. Returns the entry, the flag
  \<^verbatim>\<open>positional_arg_encountered\<close> and the globals.
\<close>

definition classify_arg ::
  "aws_cli_option list \<Rightarrow> string \<Rightarrow> cli_state \<Rightarrow> aws_cli_option option \<times> bool \<times> cli_state" where
  "classify_arg longopts arg st =
     (let first_char = c_char_at arg 0; second_char = c_char_at arg 1 in
      if first_char = chr CHR ''-'' \<and> second_char \<noteq> chr CHR ''-'' then
        (s_find_option_from_char longopts (c_char_at arg 1), False, st\<lparr>aws_cli_on_arg := True\<rparr>)
      else if first_char = chr CHR ''-'' \<and> second_char = chr CHR ''-'' then
        (s_find_option_from_c_str longopts (drop 2 arg), False, st\<lparr>aws_cli_on_arg := True\<rparr>)
      else if \<not> aws_cli_on_arg st then
        (None, True, st\<lparr>aws_cli_positional_arg := Some arg\<rparr>)
      else
        (None, False, st\<lparr>aws_cli_on_arg := False, aws_cli_positional_arg := None\<rparr>))"

text \<open>
  One call of \<^verbatim>\<open>aws_cli_getopt_long\<close>: the value returned and the globals after it.
\<close>

definition aws_cli_getopt_long ::
  "string \<Rightarrow> aws_cli_option list \<Rightarrow> cli_state \<Rightarrow> int \<times> cli_state" where
  "aws_cli_getopt_long optstr longopts st0 =
     (let st = st0\<lparr>aws_cli_optarg := None\<rparr> in
      case unread st of
        [] \<Rightarrow> (- 1, st)
      | arg # rest \<Rightarrow>
          (case classify_arg longopts arg st of
             (None, positional_arg_encountered, st1) \<Rightarrow>
               (if positional_arg_encountered then 0x02 else chr CHR ''?'', st1\<lparr>unread := rest\<rparr>)
           | (Some option, positional_arg_encountered, st1) \<Rightarrow>
               (let st2 = st1\<lparr>unread := rest, aws_cli_on_arg := False, aws_cli_positional_arg := None\<rparr> in
                case opt_takes_arg optstr (val option) of
                  None \<Rightarrow> (chr CHR ''?'', st2)
                | Some arg_follows \<Rightarrow>
                    (if arg_follows then
                       (case rest of
                          [] \<Rightarrow> (chr CHR ''?'', st2)
                        | a # rest' \<Rightarrow>
                            (if flag option then 0 else val option,
                             st2\<lparr>unread := rest', aws_cli_optarg := Some a\<rparr>))
                     else (if flag option then 0 else val option, st2)))))"

section \<open>The program\<close>

subsection \<open>Text written by the program\<close>

definition endl :: string where
  "endl = [CHR 0x0A]"

definition dquote :: string where
  "dquote = [CHR 0x22]"

text \<open>What \<^verbatim>\<open>%d\<close> prints of an integer: its decimal digits, a minus sign first if negative.\<close>

fun dec_nat :: "nat \<Rightarrow> string" where
  "dec_nat n = (if n < 10 then [char_of (48 + n)] else dec_nat (n div 10) @ [char_of (48 + n mod 10)])"

declare dec_nat.simps [simp del]

definition dec_int :: "int \<Rightarrow> string" where
  "dec_int i = (if i < 0 then ''-'' @ dec_nat (nat (- i)) else dec_nat (nat i))"

subsection \<open>\<^verbatim>\<open>s_usage\<close>, lines 49 to 64\<close>

definition usage_text :: "action list" where
  "usage_text =
    [Stderr (''usage: websocket_app [options] endpoint'' @ endl),
     Stderr ('' endpoint: url to connect to'' @ endl),
     Stderr (endl @ '' Options:'' @ endl @ endl),
     Stderr (''      --cacert FILE: path to a CA certficate file.'' @ endl),
     Stderr (''      --cert FILE: path to a PEM encoded certificate to use with mTLS'' @ endl),
     Stderr (''      --key FILE: Path to a PEM encoded private key that matches cert.'' @ endl),
     Stderr (''  -l, --log FILE: dumps logs to FILE instead of stderr.'' @ endl),
     Stderr (''  -v, --verbose: ERROR|INFO|DEBUG|TRACE: log level to configure. Default is none.'' @ endl),
     Stderr (''  -h, --help'' @ endl),
     Stderr (''            Display this message and quit.'' @ endl)]"

text \<open>Prints the usage text to \<^verbatim>\<open>stderr\<close> and ends the process with the code given.\<close>

definition s_usage :: "int \<Rightarrow> action list \<Rightarrow> 'a run" where
  "s_usage exit_code out = Exited (out @ usage_text) exit_code"

subsection \<open>\<^verbatim>\<open>s_parse_options\<close>, lines 78 to 148\<close>

text \<open>
  A \<^verbatim>\<open>const char *\<close> handed to code that reads a string: the null pointer reads as the
  empty string (\<^verbatim>\<open>aws_byte_cursor_from_c_str\<close> makes the empty cursor of it). The
  scanner never leaves the pointer null where the program reads it this way.
\<close>

definition c_str :: "string option \<Rightarrow> string" where
  "c_str p = (case p of None \<Rightarrow> [] | Some s \<Rightarrow> s)"

text \<open>
  The \<^verbatim>\<open>switch\<close> of lines 90 to 140, for the value \<open>c\<close> that the scanner returned and
  the scanner's globals \<open>st\<close> after the call. The cases are tried in the order of the
  source; no case is written for \<^verbatim>\<open>'f'\<close>, the value of \<^verbatim>\<open>connect-timeout\<close>, so it
  falls to \<^verbatim>\<open>default\<close>.
\<close>

definition s_parse_case :: "crt \<Rightarrow> int \<Rightarrow> cli_state \<Rightarrow> app_ctx \<Rightarrow> action list \<Rightarrow> app_ctx run" where
  "s_parse_case lib c st ctx out =
     (if c = 0 then Proceed out ctx
      else if c = 0x02 then
        (let positional = c_str (aws_cli_positional_arg st);
             ctx1 = ctx\<lparr>uri := Uri lib positional\<rparr>
         in if \<not> is_init (uri ctx1) then
              s_usage 1
                (out @ [Stderr (''Failed to parse uri '' @ dquote @ positional @ dquote @ '' with error ''
                                  @ ErrorDebugString lib (LastError (uri ctx1)) @ endl)])
            else
              Proceed
                (out @ [Stderr (''Success to parse uri '' @ dquote @ positional
                                  @ GetFullUri (uri ctx1) @ endl)])
                ctx1)
      else if c = chr CHR ''a'' then Proceed out (ctx\<lparr>cacert := aws_cli_optarg st\<rparr>)
      else if c = chr CHR ''c'' then Proceed out (ctx\<lparr>cert := aws_cli_optarg st\<rparr>)
      else if c = chr CHR ''e'' then Proceed out (ctx\<lparr>key := aws_cli_optarg st\<rparr>)
      else if c = chr CHR ''l'' then Proceed out (ctx\<lparr>TraceFile := aws_cli_optarg st\<rparr>)
      else if c = chr CHR ''h'' then s_usage 0 out
      else if c = chr CHR ''v'' then
        (let temp_log_level =
               (case aws_cli_optarg st of
                  None \<Rightarrow> AWS_LL_NONE
                | Some level_string \<Rightarrow>
                    (case string_to_log_level lib level_string of
                       None \<Rightarrow> AWS_LL_NONE
                     | Some l \<Rightarrow> l));
             ctx1 = ctx\<lparr>LogLevel := temp_log_level\<rparr>
         in if level_value (LogLevel ctx1) < level_value AWS_LL_ERROR then
              s_usage 1 (out @ [Stderr (''unsupported log level '' @ c_str (aws_cli_optarg st) @ endl)])
            else Proceed out ctx1)
      else s_usage 1 (out @ [Stderr (''Unknown option'' @ endl)]))"

text \<open>
  The \<^verbatim>\<open>while (true)\<close> loop of lines 80 to 141: call the scanner, leave the loop on
  \<^verbatim>\<open>-1\<close>, otherwise run the switch and go round again unless the process has exited.
\<close>

function s_parse_loop :: "crt \<Rightarrow> cli_state \<Rightarrow> app_ctx \<Rightarrow> action list \<Rightarrow> app_ctx run" where
  "s_parse_loop lib st ctx out =
     (let r = aws_cli_getopt_long optstring s_long_options st in
      if fst r = - 1 then Proceed out ctx
      else
        (case s_parse_case lib (fst r) (snd r) ctx out of
           Exited out1 code \<Rightarrow> Exited out1 code
         | Blocked out1 \<Rightarrow> Blocked out1
         | Proceed out1 ctx1 \<Rightarrow> s_parse_loop lib (snd r) ctx1 out1))"
  by pat_completeness auto
termination
  by (relation "measure (\<lambda>(lib, st, ctx, out). length (unread st))")
     (auto simp: aws_cli_getopt_long_def classify_arg_def Let_def
        split: list.splits option.splits if_splits prod.splits)

declare s_parse_loop.simps [simp del]

text \<open>
  The scanner's globals when the program starts: \<^verbatim>\<open>aws_cli_optind = 1\<close>, so
  \<^verbatim>\<open>argv[0]\<close> is never read.
\<close>

definition cli_initial :: "string list \<Rightarrow> cli_state" where
  "cli_initial argv =
     \<lparr>unread = drop 1 argv, aws_cli_on_arg = False, aws_cli_optarg = None, aws_cli_positional_arg = None\<rparr>"

definition s_parse_options :: "crt \<Rightarrow> string list \<Rightarrow> app_ctx \<Rightarrow> action list \<Rightarrow> app_ctx run" where
  "s_parse_options lib argv ctx out =
     (case s_parse_loop lib (cli_initial argv) ctx out of
        Exited out1 code \<Rightarrow> Exited out1 code
      | Blocked out1 \<Rightarrow> Blocked out1
      | Proceed out1 ctx1 \<Rightarrow>
          (if \<not> is_init (uri ctx1) then
             s_usage 1 (out1 @ [Stderr (''A URI for the request must be supplied.'' @ endl)])
           else Proceed out1 ctx1))"

subsection \<open>\<^verbatim>\<open>main\<close>, lines 176 to 311\<close>

text \<open>
  Lines 181 to 184: the context is value-initialised (\<^verbatim>\<open>= {}\<close>), then the timeout and
  the port get their defaults.
\<close>

definition app_ctx_zero :: app_ctx where
  "app_ctx_zero =
     \<lparr>uri = empty_uri, port = 0, cacert = None, cert = None, key = None,
      connect_timeout = 0, TraceFile = None, LogLevel = AWS_LL_NONE\<rparr>"

definition app_ctx_initial :: app_ctx where
  "app_ctx_initial = app_ctx_zero\<lparr>connect_timeout := 3000, port := 443\<rparr>"

text \<open>Lines 187 to 190: a port in the URI replaces the default, narrowed to 16 bits.\<close>

definition main_port :: "app_ctx \<Rightarrow> app_ctx" where
  "main_port app_ctx =
     (if GetPort (uri app_ctx) \<noteq> 0 then app_ctx\<lparr>port := of_nat (GetPort (uri app_ctx))\<rparr>
      else app_ctx)"

text \<open>Lines 199 to 207: logging goes to the trace file if there is one, else to \<^verbatim>\<open>stdout\<close>.\<close>

definition main_logging :: "app_ctx \<Rightarrow> action" where
  "main_logging app_ctx =
     (case TraceFile app_ctx of
        Some file \<Rightarrow> InitializeLogging (LogLevel app_ctx) (LogToFile file)
      | None \<Rightarrow> InitializeLogging (LogLevel app_ctx) LogToStdout)"

text \<open>
  Lines 209 and 224 to 229: the builder is made from a \<^verbatim>\<open>WebsocketConfig\<close> for the
  region \<^verbatim>\<open>us-east-1\<close>, and is given the CA file and the host name of the URI.
\<close>

definition main_config :: "app_ctx \<Rightarrow> client_config_builder" where
  "main_config app_ctx =
     \<lparr>signing_region = ''us-east-1'',
      certificate_authority = cacert app_ctx,
      endpoint = GetHostName (uri app_ctx)\<rparr>"

text \<open>
  The body of \<^verbatim>\<open>onConnectionCompleted\<close>, lines 264 to 276: what it prints and the value
  it gives to \<^verbatim>\<open>connectionCompletedPromise\<close>.
\<close>

definition onConnectionCompleted :: "crt \<Rightarrow> int \<Rightarrow> int \<Rightarrow> action \<times> bool" where
  "onConnectionCompleted lib errorCode returnCode =
     (if errorCode \<noteq> 0 then
        (Stdout (''Connection failed with error '' @ ErrorDebugString lib errorCode @ endl), False)
      else
        (Stdout (''Connection completed with return code '' @ dec_int returnCode @ endl), True))"

text \<open>
  Lines 251 to 311: the client id, the call of \<^verbatim>\<open>Connect\<close>, the wait for the promise,
  and the end of \<^verbatim>\<open>main\<close>, which returns 0 by falling off its end.
\<close>

definition main_connect :: "crt \<Rightarrow> action list \<Rightarrow> unit run" where
  "main_connect lib out =
     (let clientId = ''test-'' @ uuid lib;
          out1 = out @ [Stdout (''Connecting...'' @ endl), Mqtt (Connect clientId False 1000)]
      in case connect_result lib clientId False 1000 of
           FailedWith err \<Rightarrow>
             Exited (out1 @ [Stderr (''MQTT Connection failed with error '' @ ErrorDebugString lib err @ endl)]) (- 1)
         | Succeeded \<Rightarrow>
             (case connection_completed lib of
                None \<Rightarrow> Blocked out1
              | Some (errorCode, returnCode, sessionPresent) \<Rightarrow>
                  (let cb = onConnectionCompleted lib errorCode returnCode;
                       out2 = out1 @ [fst cb]
                   in if snd cb = False then Exited (out2 @ [Stderr (''Connection failed'' @ endl)]) (- 1)
                      else Exited out2 0)))"

text \<open>Lines 199 to 249: logging, credentials provider, configuration, connection.\<close>

definition main_client :: "crt \<Rightarrow> app_ctx \<Rightarrow> action list \<Rightarrow> unit run" where
  "main_client lib app_ctx out =
     (let out1 = out @ [main_logging app_ctx, CreateCredentialsProviderChainDefault] in
      if \<not> provider_created lib then
        Exited (out1 @ [Stderr (''Failure to create credentials provider!'' @ endl)]) (- 1)
      else
        (let clientConfigBuilder = main_config app_ctx;
             out2 = out1 @ [Build clientConfigBuilder]
         in case build_result lib clientConfigBuilder of
              FailedWith err \<Rightarrow>
                Exited (out2 @ [Stderr (''Client Configuration initialization failed with error ''
                                          @ ErrorDebugString lib err @ endl)]) (- 1)
            | Succeeded \<Rightarrow>
                (let out3 = out2 @ [NewConnection clientConfigBuilder] in
                 case new_connection_result lib clientConfigBuilder of
                   FailedWith err \<Rightarrow>
                     Exited (out3 @ [Stderr (''MQTT Connection Creation failed with error ''
                                               @ ErrorDebugString lib err @ endl)]) (- 1)
                 | Succeeded \<Rightarrow> main_connect lib out3)))"

definition main :: "crt \<Rightarrow> string list \<Rightarrow> unit run" where
  "main lib argv =
     (case s_parse_options lib argv app_ctx_initial [] of
        Exited out code \<Rightarrow> Exited out code
      | Blocked out \<Rightarrow> Blocked out
      | Proceed out app_ctx \<Rightarrow> main_client lib (main_port app_ctx) out)"

section \<open>A library to run the program against\<close>

text \<open>
  The theorems about the program hold for every \<open>crt\<close>. A run on concrete arguments
  needs concrete answers; the definitions of this section supply them. They are models
  of library routines, whose code is not in the program's file.
\<close>

subsection \<open>Log level names\<close>

text \<open>
  \<^verbatim>\<open>aws_string_to_log_level\<close> compares the string, ignoring the case of ASCII
  letters, with the library's names of the levels, which are in the order of the
  enumeration: NONE, FATAL, ERROR, WARN, INFO, DEBUG, TRACE.
\<close>

definition s_log_level_strings :: "(string \<times> aws_log_level) list" where
  "s_log_level_strings =
     [(''NONE'', AWS_LL_NONE), (''FATAL'', AWS_LL_FATAL), (''ERROR'', AWS_LL_ERROR),
      (''WARN'', AWS_LL_WARN), (''INFO'', AWS_LL_INFO), (''DEBUG'', AWS_LL_DEBUG),
      (''TRACE'', AWS_LL_TRACE)]"

definition ascii_upper :: "char \<Rightarrow> char" where
  "ascii_upper c =
     (if (97::nat) \<le> of_char c \<and> of_char c \<le> (122::nat) then char_of (of_char c - (32::nat)) else c)"

fun find_level :: "(string \<times> aws_log_level) list \<Rightarrow> string \<Rightarrow> aws_log_level option" where
  "find_level [] level_string = None"
| "find_level ((level_name, level) # names) level_string =
     (if map ascii_upper level_string = map ascii_upper level_name then Some level
      else find_level names level_string)"

definition aws_string_to_log_level :: "string \<Rightarrow> aws_log_level option" where
  "aws_string_to_log_level level_string = find_level s_log_level_strings level_string"

subsection \<open>URI parsing\<close>

text \<open>
  \<^verbatim>\<open>Io::Uri\<close> hands the string to the library's generic URI parser. The model splits
  the string as that parser does: an optional scheme up to \<^verbatim>\<open>://\<close>, the authority up
  to the first \<^verbatim>\<open>/\<close> or \<^verbatim>\<open>?\<close>, in the authority an optional user part up to \<^verbatim>\<open>@\<close>, the
  host, and a decimal port after a colon. It fails on the empty string, on a scheme that
  is not followed by \<^verbatim>\<open>://\<close>, on an empty rest after the scheme, and on a port that is
  not a number of 16 bits. It knows nothing of what a scheme means: any scheme name is
  accepted. Path and query are not split, since the program never reads them.
\<close>

fun find_char :: "char \<Rightarrow> string \<Rightarrow> nat option" where
  "find_char c [] = None"
| "find_char c (x # xs) =
     (if x = c then Some 0 else (case find_char c xs of None \<Rightarrow> None | Some i \<Rightarrow> Some (Suc i)))"

definition is_digit :: "char \<Rightarrow> bool" where
  "is_digit c = ((48::nat) \<le> of_char c \<and> of_char c \<le> (57::nat))"

definition digits_value :: "string \<Rightarrow> nat" where
  "digits_value ds = foldl (\<lambda>n c. 10 * n + (of_char c - 48)) 0 ds"

text \<open>The number that stands for the library's malformed-input error; the program only prints it.\<close>

definition malformed_input_string :: int where
  "malformed_input_string = 1"

definition uri_error :: io_uri where
  "uri_error = empty_uri\<lparr>LastError := malformed_input_string\<rparr>"

text \<open>Host and port of an authority; \<open>None\<close> when the port is malformed.\<close>

definition parse_authority :: "string \<Rightarrow> (string \<times> nat) option" where
  "parse_authority authority =
     (let host_port = (case find_char CHR ''@'' authority of
                         None \<Rightarrow> authority
                       | Some i \<Rightarrow> drop (Suc i) authority);
          search_from = (if c_char_at host_port 0 = chr CHR ''[''
                         then find_char CHR '']'' host_port else Some 0)
      in case search_from of
           None \<Rightarrow> None
         | Some k \<Rightarrow>
             (case find_char CHR '':'' (drop k host_port) of
                None \<Rightarrow> Some (host_port, 0)
              | Some j \<Rightarrow>
                  (let port_str = drop (Suc (k + j)) host_port in
                   if list_all is_digit port_str \<and> length port_str \<le> 5 \<and> digits_value port_str \<le> 65535
                   then Some (take (k + j) host_port, digits_value port_str)
                   else None)))"

text \<open>The string after the scheme: authority, then the rest.\<close>

definition parse_after_scheme :: "string \<Rightarrow> string \<Rightarrow> io_uri" where
  "parse_after_scheme full str =
     (if str = [] then uri_error
      else
        (let authority =
               (case find_char CHR ''/'' str of
                  Some i \<Rightarrow> take i str
                | None \<Rightarrow> (case find_char CHR ''?'' str of Some i \<Rightarrow> take i str | None \<Rightarrow> str))
         in if authority = [] then
              \<lparr>is_init = True, LastError = 0, GetFullUri = full, GetHostName = [], GetPort = 0\<rparr>
            else
              (case parse_authority authority of
                 None \<Rightarrow> uri_error
               | Some (host, p) \<Rightarrow>
                   \<lparr>is_init = True, LastError = 0, GetFullUri = full, GetHostName = host, GetPort = p\<rparr>)))"

definition aws_uri_init_parse :: "string \<Rightarrow> io_uri" where
  "aws_uri_init_parse str =
     (case find_char CHR '':'' str of
        None \<Rightarrow> parse_after_scheme str str
      | Some i \<Rightarrow>
          (if Suc i \<ge> length str \<or> str ! Suc i \<noteq> CHR ''/'' then parse_after_scheme str str
           else if length str < i + 3 \<or> str ! (i + 2) \<noteq> CHR ''/'' then uri_error
           else parse_after_scheme str (drop (i + 3) str)))"

subsection \<open>A run in which every call succeeds\<close>

definition aws_error_debug_str :: "int \<Rightarrow> string" where
  "aws_error_debug_str code = ''aws-c-common: error '' @ dec_int code"

text \<open>
  The library of a run in which the provider, the configuration and the connection are
  created, \<^verbatim>\<open>Connect\<close> returns true and the connection completes with error code 0.
\<close>

definition connected_crt :: crt where
  "connected_crt =
     \<lparr>Uri = aws_uri_init_parse,
      string_to_log_level = aws_string_to_log_level,
      ErrorDebugString = aws_error_debug_str,
      provider_created = True,
      build_result = (\<lambda>b. Succeeded),
      new_connection_result = (\<lambda>b. Succeeded),
      uuid = ''123e4567-e89b-42d3-a456-426614174000'',
      connect_result = (\<lambda>clientId cleanSession keepAliveTimeSecs. Succeeded),
      connection_completed = Some (0, 0, False)\<rparr>"

section \<open>Notions for the statements\<close>

text \<open>
  An argument starts with a dash: the scanner then treats it as an option, never as a
  positional argument.
\<close>

definition is_option_arg :: "string \<Rightarrow> bool" where
  "is_option_arg arg = (c_char_at arg 0 = chr CHR ''-'')"

text \<open>
  The table entry that an argument starting with a dash names: by its second character
  for \<^verbatim>\<open>-x...\<close>, by the text after the two dashes for \<^verbatim>\<open>--name\<close>.
\<close>

definition lookup_option :: "aws_cli_option list \<Rightarrow> string \<Rightarrow> aws_cli_option option" where
  "lookup_option longopts arg =
     (if c_char_at arg 1 \<noteq> chr CHR ''-'' then s_find_option_from_char longopts (c_char_at arg 1)
      else s_find_option_from_c_str longopts (drop 2 arg))"

text \<open>
  The value (\<^verbatim>\<open>val\<close>) of the entry of \<^verbatim>\<open>s_long_options\<close> that an argument names;
  \<open>None\<close> for a positional argument and for an option that is not in the table.
\<close>

definition option_char :: "string \<Rightarrow> int option" where
  "option_char arg =
     (if is_option_arg arg then map_option val (lookup_option s_long_options arg) else None)"

text \<open>
  The scanner's globals between two calls of a run that is still going, with \<open>args\<close>
  left to read; and the loop of \<^verbatim>\<open>s_parse_options\<close> started there.
\<close>

definition scanning :: "string list \<Rightarrow> cli_state" where
  "scanning args =
     \<lparr>unread = args, aws_cli_on_arg = False, aws_cli_optarg = None, aws_cli_positional_arg = None\<rparr>"

definition parse_args :: "crt \<Rightarrow> string list \<Rightarrow> app_ctx \<Rightarrow> action list \<Rightarrow> app_ctx run" where
  "parse_args lib args ctx out = s_parse_loop lib (scanning args) ctx out"

text \<open>
  The level that the case \<^verbatim>\<open>'v'\<close> of the switch configures for a level string, \<open>None\<close>
  when it rejects the string: the library must know the name, and the level must not be
  below \<^verbatim>\<open>LogLevel::Error\<close>.
\<close>

definition accepted_level :: "crt \<Rightarrow> string \<Rightarrow> aws_log_level option" where
  "accepted_level lib x =
     (case string_to_log_level lib x of
        None \<Rightarrow> None
      | Some l \<Rightarrow> if level_value l < level_value AWS_LL_ERROR then None else Some l)"

text \<open>The MQTT operations among the actions of a run, in order.\<close>

fun mqtt_ops :: "action list \<Rightarrow> mqtt_op list" where
  "mqtt_ops [] = []"
| "mqtt_ops (Mqtt op # acts) = op # mqtt_ops acts"
| "mqtt_ops (act # acts) = mqtt_ops acts"

text \<open>
  The calls of \<^verbatim>\<open>main\<close> that come before \<^verbatim>\<open>Connect\<close> all succeed: the credentials
  provider, the configuration and the connection are there.
\<close>

definition client_created :: "crt \<Rightarrow> app_ctx \<Rightarrow> bool" where
  "client_created lib ctx =
     (provider_created lib \<and> build_result lib (main_config ctx) = Succeeded
      \<and> new_connection_result lib (main_config ctx) = Succeeded)"

text \<open>
  The connection attempt fails: a call before \<^verbatim>\<open>Connect\<close> fails, or \<^verbatim>\<open>Connect\<close> returns
  false, or the completion callback is called with a nonzero error code.
\<close>

definition connection_fails :: "crt \<Rightarrow> app_ctx \<Rightarrow> bool" where
  "connection_fails lib ctx =
     (\<not> client_created lib ctx
      \<or> connect_result lib (''test-'' @ uuid lib) False 1000 \<noteq> Succeeded
      \<or> (case connection_completed lib of
            None \<Rightarrow> False
          | Some (errorCode, returnCode, sessionPresent) \<Rightarrow> errorCode \<noteq> 0))"

text \<open>
  The rest of a run of \<^verbatim>\<open>main\<close> from inside the loop of \<^verbatim>\<open>s_parse_options\<close>: the
  arguments \<open>args\<close> are still unread, the context is \<open>ctx\<close> and \<open>out\<close> has been done so
  far. It is the rest of the loop, the test for a URI after it (lines 143 to 147) and
  \<^verbatim>\<open>main\<close> from line 187 on.
\<close>

definition run_from :: "crt \<Rightarrow> string list \<Rightarrow> app_ctx \<Rightarrow> action list \<Rightarrow> unit run" where
  "run_from lib args ctx out =
     (case parse_args lib args ctx out of
        Exited out1 code \<Rightarrow> Exited out1 code
      | Blocked out1 \<Rightarrow> Blocked out1
      | Proceed out1 ctx1 \<Rightarrow>
          (if is_init (uri ctx1) then main_client lib (main_port ctx1) out1
           else Exited (out1 @ Stderr (''A URI for the request must be supplied.'' @ endl) # usage_text) 1))"

text \<open>
  The level names that \<^verbatim>\<open>-v\<close> accepts when the library's names are those of
  \<open>s_log_level_strings\<close>, with the level each configures. The keys are in upper case;
  a level string is looked up after \<open>map ascii_upper\<close>.
\<close>

definition verbose_levels :: "(string \<times> aws_log_level) list" where
  "verbose_levels =
     [(''ERROR'', AWS_LL_ERROR), (''WARN'', AWS_LL_WARN), (''INFO'', AWS_LL_INFO),
      (''DEBUG'', AWS_LL_DEBUG), (''TRACE'', AWS_LL_TRACE)]"

text \<open>
  The port that \<^verbatim>\<open>main\<close> leaves in \<^verbatim>\<open>app_ctx.port\<close> after lines 186 to 190, as a
  number; \<open>None\<close> when the option parser has ended the run.
\<close>

definition resolved_port :: "crt \<Rightarrow> string list \<Rightarrow> nat option" where
  "resolved_port lib argv =
     (case s_parse_options lib argv app_ctx_initial [] of
        Exited out code \<Rightarrow> None
      | Blocked out \<Rightarrow> None
      | Proceed out ctx \<Rightarrow> Some (unat (port (main_port ctx))))"

text \<open>
  Two contexts agree on every field that the program reads after it has written it:
  they may differ in \<^verbatim>\<open>cert\<close>, \<^verbatim>\<open>key\<close> and \<^verbatim>\<open>connect_timeout\<close> only.
\<close>

definition same_used :: "app_ctx \<Rightarrow> app_ctx \<Rightarrow> bool" where
  "same_used c1 c2 =
     (uri c1 = uri c2 \<and> port c1 = port c2 \<and> cacert c1 = cacert c2
      \<and> TraceFile c1 = TraceFile c2 \<and> LogLevel c1 = LogLevel c2)"

text \<open>
  The calls that a run makes into the libraries, in order: its actions without what it
  prints on \<^verbatim>\<open>stdout\<close> and \<^verbatim>\<open>stderr\<close>.
\<close>

fun is_call :: "action \<Rightarrow> bool" where
  "is_call (Stderr s) = False"
| "is_call (Stdout s) = False"
| "is_call (InitializeLogging l t) = True"
| "is_call CreateCredentialsProviderChainDefault = True"
| "is_call (Build c) = True"
| "is_call (NewConnection c) = True"
| "is_call (Mqtt m) = True"

definition library_calls :: "action list \<Rightarrow> action list" where
  "library_calls out = filter is_call out"

text \<open>
  Two pieces of the program end in the same way up to what they print: both exit with
  the same code, both wait, or both go on with values related by \<open>R\<close>, after the same
  calls into the libraries.
\<close>

fun same_outcome :: "('a \<Rightarrow> 'b \<Rightarrow> bool) \<Rightarrow> 'a run \<Rightarrow> 'b run \<Rightarrow> bool" where
  "same_outcome R (Exited out1 code1) (Exited out2 code2) =
     (code1 = code2 \<and> library_calls out1 = library_calls out2)"
| "same_outcome R (Blocked out1) (Blocked out2) = (library_calls out1 = library_calls out2)"
| "same_outcome R (Proceed out1 x) (Proceed out2 y) =
     (library_calls out1 = library_calls out2 \<and> R x y)"
| "same_outcome R r1 r2 = False"

text \<open>
  Two contexts agree on what reaches the libraries: on whether there is a URI, on its host
  name, and on the CA file, the trace file and the level. The port, the text and the
  last error of the URI may differ, as may \<^verbatim>\<open>port\<close>, \<^verbatim>\<open>cert\<close>, \<^verbatim>\<open>key\<close> and
  \<^verbatim>\<open>connect_timeout\<close>.
\<close>

definition same_connection :: "app_ctx \<Rightarrow> app_ctx \<Rightarrow> bool" where
  "same_connection c1 c2 =
     (is_init (uri c1) = is_init (uri c2) \<and> GetHostName (uri c1) = GetHostName (uri c2)
      \<and> cacert c1 = cacert c2 \<and> TraceFile c1 = TraceFile c2 \<and> LogLevel c1 = LogLevel c2)"


section \<open>The scanner and the loop, argument by argument\<close>

text \<open>
  What one call of the scanner returns, by the kind of the next argument. The lemmas hold
  for every table and option string.
\<close>

lemma classify_option:
  "is_option_arg arg \<Longrightarrow>
   classify_arg longopts arg st = (lookup_option longopts arg, False, st\<lparr>aws_cli_on_arg := True\<rparr>)"
  by (simp add: classify_arg_def is_option_arg_def lookup_option_def Let_def)

lemma classify_positional:
  "\<not> is_option_arg arg \<Longrightarrow> \<not> aws_cli_on_arg st \<Longrightarrow>
   classify_arg longopts arg st = (None, True, st\<lparr>aws_cli_positional_arg := Some arg\<rparr>)"
  by (simp add: classify_arg_def is_option_arg_def Let_def)

lemma getopt_end:
  "unread st = [] \<Longrightarrow> aws_cli_getopt_long optstr longopts st = (- 1, st\<lparr>aws_cli_optarg := None\<rparr>)"
  by (simp add: aws_cli_getopt_long_def)

lemma getopt_positional:
  "unread st = arg # rest \<Longrightarrow> \<not> is_option_arg arg \<Longrightarrow> \<not> aws_cli_on_arg st \<Longrightarrow>
   aws_cli_getopt_long optstr longopts st =
     (0x02, st\<lparr>aws_cli_optarg := None, aws_cli_positional_arg := Some arg, unread := rest\<rparr>)"
  by (simp add: aws_cli_getopt_long_def classify_positional)

lemma getopt_unknown:
  "unread st = arg # rest \<Longrightarrow> is_option_arg arg \<Longrightarrow> lookup_option longopts arg = None \<Longrightarrow>
   aws_cli_getopt_long optstr longopts st =
     (chr CHR ''?'', st\<lparr>aws_cli_optarg := None, aws_cli_on_arg := True, unread := rest\<rparr>)"
  by (simp add: aws_cli_getopt_long_def classify_option)

lemma getopt_not_in_optstring:
  "unread st = arg # rest \<Longrightarrow> is_option_arg arg \<Longrightarrow> lookup_option longopts arg = Some opt \<Longrightarrow>
   opt_takes_arg optstr (val opt) = None \<Longrightarrow>
   aws_cli_getopt_long optstr longopts st =
     (chr CHR ''?'', st\<lparr>aws_cli_optarg := None, unread := rest, aws_cli_on_arg := False,
                       aws_cli_positional_arg := None\<rparr>)"
  by (simp add: aws_cli_getopt_long_def classify_option)

lemma getopt_no_arg:
  "unread st = arg # rest \<Longrightarrow> is_option_arg arg \<Longrightarrow> lookup_option longopts arg = Some opt \<Longrightarrow>
   opt_takes_arg optstr (val opt) = Some False \<Longrightarrow>
   aws_cli_getopt_long optstr longopts st =
     (if flag opt then 0 else val opt,
      st\<lparr>aws_cli_optarg := None, unread := rest, aws_cli_on_arg := False, aws_cli_positional_arg := None\<rparr>)"
  by (simp add: aws_cli_getopt_long_def classify_option)

lemma getopt_arg_missing:
  "unread st = [arg] \<Longrightarrow> is_option_arg arg \<Longrightarrow> lookup_option longopts arg = Some opt \<Longrightarrow>
   opt_takes_arg optstr (val opt) = Some True \<Longrightarrow>
   aws_cli_getopt_long optstr longopts st =
     (chr CHR ''?'', st\<lparr>aws_cli_optarg := None, unread := [], aws_cli_on_arg := False,
                       aws_cli_positional_arg := None\<rparr>)"
  by (simp add: aws_cli_getopt_long_def classify_option)

lemma getopt_with_arg:
  "unread st = arg # a # rest \<Longrightarrow> is_option_arg arg \<Longrightarrow> lookup_option longopts arg = Some opt \<Longrightarrow>
   opt_takes_arg optstr (val opt) = Some True \<Longrightarrow>
   aws_cli_getopt_long optstr longopts st =
     (if flag opt then 0 else val opt,
      st\<lparr>aws_cli_optarg := Some a, unread := rest, aws_cli_on_arg := False, aws_cli_positional_arg := None\<rparr>)"
  by (simp add: aws_cli_getopt_long_def classify_option)

text \<open>The program's table and option string: which values an argument can name, and which take a value.\<close>

lemma lookup_table:
  "lookup_option s_long_options arg = Some opt \<Longrightarrow>
   \<not> flag opt \<and> val opt \<in> {chr CHR ''a'', chr CHR ''c'', chr CHR ''e'', chr CHR ''f'', chr CHR ''l'', chr CHR ''v'', chr CHR ''h''}"
  by (auto simp: lookup_option_def s_long_options_def split: if_splits)

lemma takes_arg_table:
  "opt_takes_arg optstring (chr CHR ''a'') = Some True"
  "opt_takes_arg optstring (chr CHR ''c'') = Some True"
  "opt_takes_arg optstring (chr CHR ''e'') = Some True"
  "opt_takes_arg optstring (chr CHR ''f'') = Some True"
  "opt_takes_arg optstring (chr CHR ''l'') = Some True"
  "opt_takes_arg optstring (chr CHR ''v'') = Some True"
  "opt_takes_arg optstring (chr CHR ''h'') = Some False"
  by (simp_all add: optstring_def c_char_at_def)

text \<open>
  Between two calls of a run that goes on, \<^verbatim>\<open>aws_cli_on_arg\<close> is false, and what the
  loop does from there depends on the unread arguments only: the loop started in any such
  state is \<open>parse_args\<close> of its unread arguments.
\<close>

lemma scanning_simps [simp]:
  "unread (scanning args) = args" "\<not> aws_cli_on_arg (scanning args)"
  by (simp_all add: scanning_def)

lemma state_eq:
  "\<not> aws_cli_on_arg st \<Longrightarrow>
   st\<lparr>aws_cli_optarg := x, aws_cli_positional_arg := y, unread := r\<rparr> =
   (scanning (unread st))\<lparr>aws_cli_optarg := x, aws_cli_positional_arg := y, unread := r\<rparr>"
  "st\<lparr>aws_cli_optarg := x, unread := r, aws_cli_on_arg := False, aws_cli_positional_arg := y\<rparr> =
   (scanning (unread st))\<lparr>aws_cli_optarg := x, unread := r, aws_cli_on_arg := False, aws_cli_positional_arg := y\<rparr>"
  by (cases st; simp add: scanning_def)+

lemma getopt_normal:
  assumes "\<not> aws_cli_on_arg st"
  shows "\<exists>c st1 st2. aws_cli_getopt_long optstr longopts st = (c, st1) \<and>
           aws_cli_getopt_long optstr longopts (scanning (unread st)) = (c, st2) \<and>
           (c = - 1 \<or> c = chr CHR ''?'' \<or> st1 = st2)"
proof (cases "unread st")
  case Nil
  then show ?thesis by (simp add: getopt_end)
next
  case (Cons arg rest)
  note u = Cons
  show ?thesis
  proof (cases "is_option_arg arg")
    case False
    then show ?thesis using u assms by (simp add: getopt_positional state_eq(1)[symmetric])
  next
    case True
    note d = True
    show ?thesis
    proof (cases "lookup_option longopts arg")
      case None
      then show ?thesis using u d by (simp add: getopt_unknown)
    next
      case (Some opt)
      note l = Some
      show ?thesis
      proof (cases "opt_takes_arg optstr (val opt)")
        case None
        then show ?thesis using u d l by (simp add: getopt_not_in_optstring)
      next
        case (Some t)
        show ?thesis
        proof (cases t)
          case False
          then show ?thesis using u d l Some by (simp add: getopt_no_arg state_eq(2)[symmetric])
        next
          case True
          show ?thesis
          proof (cases rest)
            case Nil
            then show ?thesis using u d l Some True by (simp add: getopt_arg_missing)
          next
            case (Cons a rest')
            then show ?thesis using u d l Some True by (simp add: getopt_with_arg state_eq(2)[symmetric])
          qed
        qed
      qed
    qed
  qed
qed

lemma parse_case_unknown:
  "s_parse_case lib 63 st ctx out = s_usage 1 (out @ [Stderr (''Unknown option'' @ endl)])"
  by (simp add: s_parse_case_def)

lemma loop_step:
  "aws_cli_getopt_long optstring s_long_options st = (c, st1) \<Longrightarrow>
   s_parse_loop lib st ctx out =
     (if c = - 1 then Proceed out ctx
      else (case s_parse_case lib c st1 ctx out of
           Exited out1 code \<Rightarrow> Exited out1 code
         | Blocked out1 \<Rightarrow> Blocked out1
         | Proceed out1 ctx1 \<Rightarrow> s_parse_loop lib st1 ctx1 out1))"
  by (subst s_parse_loop.simps) (simp add: Let_def split: run.split)

lemma loop_normal:
  assumes "\<not> aws_cli_on_arg st"
  shows "s_parse_loop lib st ctx out = parse_args lib (unread st) ctx out"
proof -
  from getopt_normal[OF assms, of optstring s_long_options]
  obtain c st1 st2 where
    g1: "aws_cli_getopt_long optstring s_long_options st = (c, st1)" and
    g2: "aws_cli_getopt_long optstring s_long_options (scanning (unread st)) = (c, st2)" and
    c: "c = - 1 \<or> c = chr CHR ''?'' \<or> st1 = st2"
    by blast
  show ?thesis
    unfolding parse_args_def loop_step[OF g1] loop_step[OF g2]
    using c by (auto simp: parse_case_unknown s_usage_def)
qed

text \<open>One turn of the loop, for each kind of argument.\<close>

lemma parse_args_step:
  assumes "aws_cli_getopt_long optstring s_long_options (scanning args) = (c, st1)"
    and "c \<noteq> - 1" and "\<not> aws_cli_on_arg st1"
  shows "parse_args lib args ctx out =
     (case s_parse_case lib c st1 ctx out of
        Exited out1 code \<Rightarrow> Exited out1 code
      | Blocked out1 \<Rightarrow> Blocked out1
      | Proceed out1 ctx1 \<Rightarrow> parse_args lib (unread st1) ctx1 out1)"
  unfolding parse_args_def[of lib args] loop_step[OF assms(1)] loop_normal[OF assms(3)]
  using assms(2) by simp

lemma parse_args_Nil: "parse_args lib [] ctx out = Proceed out ctx"
  unfolding parse_args_def
  by (subst loop_step[OF getopt_end]) simp_all

lemma option_charD:
  assumes "option_char a = Some v"
  shows "is_option_arg a"
    and "\<exists>opt. lookup_option s_long_options a = Some opt \<and> val opt = v \<and> \<not> flag opt"
    and "v \<in> {chr CHR ''a'', chr CHR ''c'', chr CHR ''e'', chr CHR ''f'', chr CHR ''l'', chr CHR ''v'', chr CHR ''h''}"
proof -
  show d: "is_option_arg a" using assms by (simp add: option_char_def split: if_splits)
  then obtain opt where o: "lookup_option s_long_options a = Some opt" "val opt = v"
    using assms by (auto simp: option_char_def)
  with lookup_table[OF o(1)]
  show "\<exists>opt. lookup_option s_long_options a = Some opt \<and> val opt = v \<and> \<not> flag opt" by blast
  show "v \<in> {chr CHR ''a'', chr CHR ''c'', chr CHR ''e'', chr CHR ''f'', chr CHR ''l'', chr CHR ''v'', chr CHR ''h''}"
    using lookup_table[OF o(1)] o(2) by blast
qed

lemma parse_case_positional:
  "s_parse_case lib 0x02 st ctx out =
     (let u = c_str (aws_cli_positional_arg st) in
      if is_init (Uri lib u) then
        Proceed (out @ [Stderr (''Success to parse uri '' @ dquote @ u @ GetFullUri (Uri lib u) @ endl)])
          (ctx\<lparr>uri := Uri lib u\<rparr>)
      else
        s_usage 1 (out @ [Stderr (''Failed to parse uri '' @ dquote @ u @ dquote @ '' with error ''
                                    @ ErrorDebugString lib (LastError (Uri lib u)) @ endl)]))"
  unfolding s_parse_case_def Let_def by simp

lemma parse_args_positional:
  assumes "\<not> is_option_arg u"
  shows "parse_args lib (u # rest) ctx out =
     (if is_init (Uri lib u) then
        parse_args lib rest (ctx\<lparr>uri := Uri lib u\<rparr>)
          (out @ [Stderr (''Success to parse uri '' @ dquote @ u @ GetFullUri (Uri lib u) @ endl)])
      else
        s_usage 1 (out @ [Stderr (''Failed to parse uri '' @ dquote @ u @ dquote @ '' with error ''
                                    @ ErrorDebugString lib (LastError (Uri lib u)) @ endl)]))"
proof -
  let ?st = "(scanning (u # rest))\<lparr>aws_cli_optarg := None, aws_cli_positional_arg := Some u, unread := rest\<rparr>"
  have g: "aws_cli_getopt_long optstring s_long_options (scanning (u # rest)) = (0x02, ?st)"
    by (rule getopt_positional[OF _ assms]) simp_all
  have s: "parse_args lib (u # rest) ctx out =
     (case s_parse_case lib 0x02 ?st ctx out of
        Exited out1 code \<Rightarrow> Exited out1 code
      | Blocked out1 \<Rightarrow> Blocked out1
      | Proceed out1 ctx1 \<Rightarrow> parse_args lib (unread ?st) ctx1 out1)"
    by (rule parse_args_step[OF g]) simp_all
  show ?thesis unfolding s parse_case_positional
    by (simp add: c_str_def Let_def s_usage_def del: append.simps)
qed

lemma parse_case_simps:
  "c = chr CHR ''a'' \<Longrightarrow> s_parse_case lib c st ctx out = Proceed out (ctx\<lparr>cacert := aws_cli_optarg st\<rparr>)"
  "c = chr CHR ''c'' \<Longrightarrow> s_parse_case lib c st ctx out = Proceed out (ctx\<lparr>cert := aws_cli_optarg st\<rparr>)"
  "c = chr CHR ''e'' \<Longrightarrow> s_parse_case lib c st ctx out = Proceed out (ctx\<lparr>key := aws_cli_optarg st\<rparr>)"
  "c = chr CHR ''l'' \<Longrightarrow> s_parse_case lib c st ctx out = Proceed out (ctx\<lparr>TraceFile := aws_cli_optarg st\<rparr>)"
  "c = chr CHR ''h'' \<Longrightarrow> s_parse_case lib c st ctx out = s_usage 0 out"
  "c = chr CHR ''f'' \<Longrightarrow> s_parse_case lib c st ctx out = s_usage 1 (out @ [Stderr (''Unknown option'' @ endl)])"
  "c = chr CHR ''?'' \<Longrightarrow> s_parse_case lib c st ctx out = s_usage 1 (out @ [Stderr (''Unknown option'' @ endl)])"
  unfolding s_parse_case_def by simp_all

lemma parse_case_verbose:
  "c = chr CHR ''v'' \<Longrightarrow> aws_cli_optarg st = Some x \<Longrightarrow>
   s_parse_case lib c st ctx out =
     (case accepted_level lib x of
        None \<Rightarrow> s_usage 1 (out @ [Stderr (''unsupported log level '' @ x @ endl)])
      | Some l \<Rightarrow> Proceed out (ctx\<lparr>LogLevel := l\<rparr>))"
  unfolding s_parse_case_def accepted_level_def Let_def c_str_def
  by (simp split: option.split)

lemma parse_args_unknown:
  assumes "is_option_arg a" "option_char a = None"
  shows "parse_args lib (a # rest) ctx out = s_usage 1 (out @ [Stderr (''Unknown option'' @ endl)])"
proof -
  have l: "lookup_option s_long_options a = None" using assms by (simp add: option_char_def)
  have g: "aws_cli_getopt_long optstring s_long_options (scanning (a # rest)) =
     (chr CHR ''?'', (scanning (a # rest))\<lparr>aws_cli_optarg := None, aws_cli_on_arg := True, unread := rest\<rparr>)"
    by (rule getopt_unknown[OF _ assms(1) l]) simp
  show ?thesis unfolding parse_args_def loop_step[OF g]
    by (simp add: parse_case_simps(7) s_usage_def del: append.simps)
qed

lemma parse_args_help:
  assumes "option_char a = Some (chr CHR ''h'')"
  shows "parse_args lib (a # rest) ctx out = s_usage 0 out"
proof -
  from option_charD[OF assms] obtain opt where
    o: "is_option_arg a" "lookup_option s_long_options a = Some opt" "val opt = chr CHR ''h''" "\<not> flag opt"
    by blast
  have t: "opt_takes_arg optstring (val opt) = Some False" unfolding o(3) by (rule takes_arg_table)
  let ?st = "(scanning (a # rest))\<lparr>aws_cli_optarg := None, unread := rest, aws_cli_on_arg := False,
                aws_cli_positional_arg := None\<rparr>"
  have g: "aws_cli_getopt_long optstring s_long_options (scanning (a # rest)) = (chr CHR ''h'', ?st)"
    using getopt_no_arg[OF _ o(1) o(2) t, of "scanning (a # rest)" rest] o by simp
  show ?thesis unfolding parse_args_def loop_step[OF g]
    by (simp add: parse_case_simps(5) s_usage_def)
qed

lemma option_takes_value:
  assumes "option_char a = Some v" "v \<noteq> chr CHR ''h''"
  shows "\<exists>opt. is_option_arg a \<and> lookup_option s_long_options a = Some opt \<and> val opt = v \<and> \<not> flag opt
           \<and> opt_takes_arg optstring (val opt) = Some True"
proof -
  from option_charD[OF assms(1)] obtain opt where
    o: "is_option_arg a" "lookup_option s_long_options a = Some opt" "val opt = v" "\<not> flag opt"
    and v: "v \<in> {chr CHR ''a'', chr CHR ''c'', chr CHR ''e'', chr CHR ''f'', chr CHR ''l'', chr CHR ''v'', chr CHR ''h''}"
    by blast
  have "opt_takes_arg optstring v = Some True"
    using v assms(2) takes_arg_table by (elim insertE emptyE) simp_all
  then show ?thesis using o by simp
qed

lemma parse_args_value_missing:
  assumes "option_char a = Some v" "v \<noteq> chr CHR ''h''"
  shows "parse_args lib [a] ctx out = s_usage 1 (out @ [Stderr (''Unknown option'' @ endl)])"
proof -
  from option_takes_value[OF assms] obtain opt where
    o: "is_option_arg a" "lookup_option s_long_options a = Some opt"
       "opt_takes_arg optstring (val opt) = Some True"
    by blast
  let ?st = "(scanning [a])\<lparr>aws_cli_optarg := None, unread := [], aws_cli_on_arg := False,
                aws_cli_positional_arg := None\<rparr>"
  have g: "aws_cli_getopt_long optstring s_long_options (scanning [a]) = (chr CHR ''?'', ?st)"
    by (rule getopt_arg_missing[OF _ o]) simp
  show ?thesis unfolding parse_args_def loop_step[OF g]
    by (simp add: parse_case_simps(7) s_usage_def del: append.simps)
qed

lemma parse_args_value:
  assumes "option_char a = Some v" "v \<noteq> chr CHR ''h''"
  shows "parse_args lib (a # x # rest) ctx out =
     (case s_parse_case lib v ((scanning rest)\<lparr>aws_cli_optarg := Some x\<rparr>) ctx out of
        Exited out1 code \<Rightarrow> Exited out1 code
      | Blocked out1 \<Rightarrow> Blocked out1
      | Proceed out1 ctx1 \<Rightarrow> parse_args lib rest ctx1 out1)"
proof -
  from option_takes_value[OF assms] obtain opt where
    o: "is_option_arg a" "lookup_option s_long_options a = Some opt"
       "opt_takes_arg optstring (val opt) = Some True" and o': "val opt = v" "\<not> flag opt"
    by blast
  let ?st = "(scanning rest)\<lparr>aws_cli_optarg := Some x\<rparr>"
  have "aws_cli_getopt_long optstring s_long_options (scanning (a # x # rest)) =
     (if flag opt then 0 else val opt,
      (scanning (a # x # rest))\<lparr>aws_cli_optarg := Some x, unread := rest, aws_cli_on_arg := False,
             aws_cli_positional_arg := None\<rparr>)"
    by (rule getopt_with_arg[OF _ o]) simp
  then have g: "aws_cli_getopt_long optstring s_long_options (scanning (a # x # rest)) = (v, ?st)"
    using o' by (simp add: scanning_def)
  have n: "v \<noteq> - 1" using option_charD(3)[OF assms(1)] by auto
  have "parse_args lib (a # x # rest) ctx out =
     (case s_parse_case lib v ?st ctx out of
        Exited out1 code \<Rightarrow> Exited out1 code
      | Blocked out1 \<Rightarrow> Blocked out1
      | Proceed out1 ctx1 \<Rightarrow> parse_args lib (unread ?st) ctx1 out1)"
    by (rule parse_args_step[OF g n]) (simp add: scanning_def)
  then show ?thesis by (simp cong: run.case_cong)
qed

lemma parse_args_cacert:
  "option_char a = Some (chr CHR ''a'') \<Longrightarrow>
   parse_args lib (a # x # rest) ctx out = parse_args lib rest (ctx\<lparr>cacert := Some x\<rparr>) out"
  by (simp add: parse_args_value parse_case_simps(1))

lemma parse_args_cert:
  "option_char a = Some (chr CHR ''c'') \<Longrightarrow>
   parse_args lib (a # x # rest) ctx out = parse_args lib rest (ctx\<lparr>cert := Some x\<rparr>) out"
  by (simp add: parse_args_value parse_case_simps(2))

lemma parse_args_key:
  "option_char a = Some (chr CHR ''e'') \<Longrightarrow>
   parse_args lib (a # x # rest) ctx out = parse_args lib rest (ctx\<lparr>key := Some x\<rparr>) out"
  by (simp add: parse_args_value parse_case_simps(3))

lemma parse_args_log:
  "option_char a = Some (chr CHR ''l'') \<Longrightarrow>
   parse_args lib (a # x # rest) ctx out = parse_args lib rest (ctx\<lparr>TraceFile := Some x\<rparr>) out"
  by (simp add: parse_args_value parse_case_simps(4))

lemma parse_args_connect_timeout:
  "option_char a = Some (chr CHR ''f'') \<Longrightarrow>
   parse_args lib (a # x # rest) ctx out = s_usage 1 (out @ [Stderr (''Unknown option'' @ endl)])"
  by (simp add: parse_args_value parse_case_simps(6) s_usage_def del: append.simps)

lemma parse_args_verbose:
  "option_char a = Some (chr CHR ''v'') \<Longrightarrow>
   parse_args lib (a # x # rest) ctx out =
     (case accepted_level lib x of
        None \<Rightarrow> s_usage 1 (out @ [Stderr (''unsupported log level '' @ x @ endl)])
      | Some l \<Rightarrow> parse_args lib rest (ctx\<lparr>LogLevel := l\<rparr>) out)"
  by (simp add: parse_args_value parse_case_verbose s_usage_def split: option.split del: append.simps)

text \<open>
  Arguments that the loop accepts can be split off: the loop on \<open>pre @ post\<close> goes on
  with \<open>post\<close> from where the loop on \<open>pre\<close> alone ends.
\<close>

lemma usage_not_proceed [simp]: "s_usage code out \<noteq> Proceed out1 x"
  by (simp add: s_usage_def)

lemma parse_case_unread:
  "s_parse_case lib c ((scanning args)\<lparr>aws_cli_optarg := x\<rparr>) ctx out =
   s_parse_case lib c ((scanning [])\<lparr>aws_cli_optarg := x\<rparr>) ctx out"
  by (simp add: s_parse_case_def scanning_def Let_def)

lemma parse_args_append:
  "parse_args lib pre ctx out = Proceed out1 ctx1 \<Longrightarrow>
   parse_args lib (pre @ post) ctx out = parse_args lib post ctx1 out1"
proof (induction "length pre" arbitrary: pre ctx out rule: less_induct)
  case less
  show ?case
  proof (cases pre)
    case Nil
    with less.prems show ?thesis by (simp add: parse_args_Nil)
  next
    case (Cons a rest)
    note pre = Cons
    show ?thesis
    proof (cases "is_option_arg a")
      case False
      with less.prems pre have i: "is_init (Uri lib a)"
        by (simp add: parse_args_positional split: if_splits)
      with less.prems pre False
      have "parse_args lib rest (ctx\<lparr>uri := Uri lib a\<rparr>)
              (out @ [Stderr (''Success to parse uri '' @ dquote @ a @ GetFullUri (Uri lib a) @ endl)])
            = Proceed out1 ctx1"
        by (simp add: parse_args_positional del: append.simps)
      from less.hyps[OF _ this] pre
      have "parse_args lib (rest @ post) (ctx\<lparr>uri := Uri lib a\<rparr>)
              (out @ [Stderr (''Success to parse uri '' @ dquote @ a @ GetFullUri (Uri lib a) @ endl)])
            = parse_args lib post ctx1 out1"
        by simp
      moreover have "pre @ post = a # (rest @ post)" using pre by simp
      ultimately show ?thesis using i
        by (simp only: parse_args_positional[OF False] if_True)
    next
      case True
      show ?thesis
      proof (cases "option_char a")
        case None
        with less.prems pre True show ?thesis by (simp add: parse_args_unknown)
      next
        case (Some v)
        show ?thesis
        proof (cases "v = chr CHR ''h''")
          case True
          with less.prems pre Some show ?thesis by (simp add: parse_args_help)
        next
          case False
          note nh = False
          show ?thesis
          proof (cases rest)
            case Nil
            with less.prems pre Some nh show ?thesis by (simp add: parse_args_value_missing)
          next
            case (Cons x rest')
            let ?r = "s_parse_case lib v ((scanning rest')\<lparr>aws_cli_optarg := Some x\<rparr>) ctx out"
            from less.prems pre Cons obtain out2 ctx2 where
              r: "?r = Proceed out2 ctx2" and p: "parse_args lib rest' ctx2 out2 = Proceed out1 ctx1"
              by (auto simp: parse_args_value[OF Some nh] split: run.splits)
            have r': "s_parse_case lib v ((scanning (rest' @ post))\<lparr>aws_cli_optarg := Some x\<rparr>) ctx out
                        = Proceed out2 ctx2"
              using r by (simp add: parse_case_unread[where args = rest'] parse_case_unread[where args = "rest' @ post"])
            from less.hyps[OF _ p] pre Cons r' show ?thesis
              by (simp add: parse_args_value[OF Some nh])
          qed
        qed
      qed
    qed
  qed
qed

text \<open>
  Induction over the arguments as the loop consumes them: one argument for a positional
  argument, two for an option with its value.
\<close>

lemma parse_args_value':
  assumes "option_char a = Some v" "v \<noteq> chr CHR ''h''"
  shows "parse_args lib (a # x # rest) ctx out =
     (case s_parse_case lib v ((scanning [])\<lparr>aws_cli_optarg := Some x\<rparr>) ctx out of
        Exited out1 code \<Rightarrow> Exited out1 code
      | Blocked out1 \<Rightarrow> Blocked out1
      | Proceed out1 ctx1 \<Rightarrow> parse_args lib rest ctx1 out1)"
  unfolding parse_args_value[OF assms] parse_case_unread[where args = rest] ..

lemma parse_args_induct [case_names Nil Positional Unknown Help Missing Value]:
  assumes nil: "\<And>ctx out. P [] ctx out"
    and pos: "\<And>u rest ctx out. \<not> is_option_arg u \<Longrightarrow>
          (is_init (Uri lib u) \<Longrightarrow>
             P rest (ctx\<lparr>uri := Uri lib u\<rparr>)
               (out @ [Stderr (''Success to parse uri '' @ dquote @ u @ GetFullUri (Uri lib u) @ endl)])) \<Longrightarrow>
          P (u # rest) ctx out"
    and unk: "\<And>a rest ctx out. is_option_arg a \<Longrightarrow> option_char a = None \<Longrightarrow> P (a # rest) ctx out"
    and hlp: "\<And>a rest ctx out. option_char a = Some (chr CHR ''h'') \<Longrightarrow> P (a # rest) ctx out"
    and miss: "\<And>a v ctx out. option_char a = Some v \<Longrightarrow> v \<noteq> chr CHR ''h'' \<Longrightarrow> P [a] ctx out"
    and valu: "\<And>a v x rest ctx out. option_char a = Some v \<Longrightarrow> v \<noteq> chr CHR ''h'' \<Longrightarrow>
          (\<And>out2 ctx2. s_parse_case lib v ((scanning [])\<lparr>aws_cli_optarg := Some x\<rparr>) ctx out = Proceed out2 ctx2
             \<Longrightarrow> P rest ctx2 out2) \<Longrightarrow>
          P (a # x # rest) ctx out"
  shows "P args ctx out"
proof (induction "length args" arbitrary: args ctx out rule: less_induct)
  case less
  show ?case
  proof (cases args)
    case Nil
    then show ?thesis by (simp add: nil)
  next
    case (Cons a rest)
    note args = Cons
    show ?thesis
    proof (cases "is_option_arg a")
      case False
      then show ?thesis unfolding args by (rule pos) (rule less.hyps, simp add: args)
    next
      case True
      show ?thesis
      proof (cases "option_char a")
        case None
        with True show ?thesis unfolding args by (rule unk)
      next
        case (Some v)
        show ?thesis
        proof (cases "v = chr CHR ''h''")
          case True
          with Some show ?thesis unfolding args by (simp add: hlp)
        next
          case False
          show ?thesis
          proof (cases rest)
            case Nil
            show ?thesis unfolding args Nil by (rule miss[OF Some False])
          next
            case (Cons x rest')
            show ?thesis unfolding args Cons
              by (rule valu[OF Some False]) (rule less.hyps, simp add: args Cons)
          qed
        qed
      qed
    qed
  qed
qed

text \<open>What a case of the switch leaves unchanged when the run goes on.\<close>

lemma option_char_values:
  "option_char a = Some v \<Longrightarrow>
   v = chr CHR ''a'' \<or> v = chr CHR ''c'' \<or> v = chr CHR ''e'' \<or> v = chr CHR ''f'' \<or>
   v = chr CHR ''l'' \<or> v = chr CHR ''v'' \<or> v = chr CHR ''h''"
  using option_charD(3)[of a v] by blast

lemma parse_case_frame:
  assumes "s_parse_case lib v ((scanning [])\<lparr>aws_cli_optarg := Some x\<rparr>) ctx out = Proceed out2 ctx2"
    and "option_char a = Some v"
  shows "port ctx2 = port ctx" "connect_timeout ctx2 = connect_timeout ctx" "uri ctx2 = uri ctx"
    "mqtt_ops out2 = mqtt_ops out"
    "v \<noteq> chr CHR ''l'' \<Longrightarrow> TraceFile ctx2 = TraceFile ctx"
    "v \<noteq> chr CHR ''v'' \<Longrightarrow> LogLevel ctx2 = LogLevel ctx"
    "v \<noteq> chr CHR ''a'' \<Longrightarrow> cacert ctx2 = cacert ctx"
  using assms(1) option_char_values[OF assms(2)]
  by (auto simp: parse_case_simps parse_case_verbose[where x = x] scanning_def split: option.splits)

section \<open>The whole run\<close>

text \<open>\<^verbatim>\<open>s_parse_options\<close> and \<^verbatim>\<open>main\<close> in terms of the loop on the arguments after \<^verbatim>\<open>argv[0]\<close>.\<close>

lemma mqtt_ops_append [simp]: "mqtt_ops (xs @ ys) = mqtt_ops xs @ mqtt_ops ys"
  by (induction xs rule: mqtt_ops.induct) simp_all

lemma cli_initial_scanning: "cli_initial (prog # args) = scanning args"
  by (simp add: cli_initial_def scanning_def)

lemma parse_options_args:
  "s_parse_options lib (prog # args) ctx out =
     (case parse_args lib args ctx out of
        Exited out1 code \<Rightarrow> Exited out1 code
      | Blocked out1 \<Rightarrow> Blocked out1
      | Proceed out1 ctx1 \<Rightarrow>
          (if is_init (uri ctx1) then Proceed out1 ctx1
           else s_usage 1 (out1 @ [Stderr (''A URI for the request must be supplied.'' @ endl)])))"
  unfolding s_parse_options_def cli_initial_scanning parse_args_def
  by (simp split: run.split)

lemma parse_options_no_args:
  "s_parse_options lib [] ctx out =
     (if is_init (uri ctx) then Proceed out ctx
      else s_usage 1 (out @ [Stderr (''A URI for the request must be supplied.'' @ endl)]))"
  unfolding s_parse_options_def
  by (simp add: cli_initial_def scanning_def[of "[]", symmetric] parse_args_def[symmetric] parse_args_Nil)

lemma main_args:
  "main lib (prog # args) =
     (case parse_args lib args app_ctx_initial [] of
        Exited out code \<Rightarrow> Exited out code
      | Blocked out \<Rightarrow> Blocked out
      | Proceed out ctx \<Rightarrow>
          (if is_init (uri ctx) then main_client lib (main_port ctx) out
           else Exited (out @ Stderr (''A URI for the request must be supplied.'' @ endl) # usage_text) 1))"
  unfolding main_def parse_options_args
  by (simp add: s_usage_def split: run.split)

text \<open>
  What a successful parse leaves unchanged: the port and the timeout always, the output
  up to messages on \<^verbatim>\<open>stderr\<close>, the URI unless a positional argument sets it, and the
  trace file, the level and the CA file unless an argument names their option.
\<close>

lemma parse_args_frame:
  assumes "parse_args lib args ctx out = Proceed out1 ctx1"
  shows "port ctx1 = port ctx \<and> connect_timeout ctx1 = connect_timeout ctx
       \<and> mqtt_ops out1 = mqtt_ops out
       \<and> (uri ctx1 = uri ctx \<or> (\<exists>u\<in>set args. \<not> is_option_arg u \<and> is_init (Uri lib u) \<and> uri ctx1 = Uri lib u))
       \<and> ((\<forall>a\<in>set args. option_char a \<noteq> Some (chr CHR ''l'')) \<longrightarrow> TraceFile ctx1 = TraceFile ctx)
       \<and> ((\<forall>a\<in>set args. option_char a \<noteq> Some (chr CHR ''v'')) \<longrightarrow> LogLevel ctx1 = LogLevel ctx)
       \<and> ((\<forall>a\<in>set args. option_char a \<noteq> Some (chr CHR ''a'')) \<longrightarrow> cacert ctx1 = cacert ctx)"
  using assms
proof (induction args ctx out rule: parse_args_induct[where lib = lib])
  case (Nil ctx out)
  then show ?case by (simp add: parse_args_Nil)
next
  case (Positional u rest ctx out)
  from Positional.prems Positional.hyps have i: "is_init (Uri lib u)"
    by (simp add: parse_args_positional split: if_splits)
  with Positional.prems Positional.hyps
  have "parse_args lib rest (ctx\<lparr>uri := Uri lib u\<rparr>)
          (out @ [Stderr (''Success to parse uri '' @ dquote @ u @ GetFullUri (Uri lib u) @ endl)])
        = Proceed out1 ctx1"
    by (simp add: parse_args_positional del: append.simps)
  from Positional.IH[OF i this] i Positional.hyps show ?case
    by (auto simp: option_char_def)
next
  case (Unknown a rest ctx out)
  then show ?case by (simp add: parse_args_unknown)
next
  case (Help a rest ctx out)
  then show ?case by (simp add: parse_args_help)
next
  case (Missing a v ctx out)
  then show ?case by (simp add: parse_args_value_missing)
next
  case (Value a v x rest ctx out)
  let ?r = "s_parse_case lib v ((scanning [])\<lparr>aws_cli_optarg := Some x\<rparr>) ctx out"
  from Value.prems obtain out2 ctx2 where
    r: "?r = Proceed out2 ctx2" and p: "parse_args lib rest ctx2 out2 = Proceed out1 ctx1"
    by (auto simp: parse_args_value'[OF Value.hyps] split: run.splits)
  note f = parse_case_frame[OF r Value.hyps(1)]
  from Value.IH[OF r p] f Value.hyps(1) show ?case by auto
qed

lemma parse_args_pre:
  assumes "parse_args lib pre app_ctx_initial [] = Proceed out ctx"
  shows "main lib (prog # pre @ post) =
     (case parse_args lib post ctx out of
        Exited out1 code \<Rightarrow> Exited out1 code
      | Blocked out1 \<Rightarrow> Blocked out1
      | Proceed out1 ctx1 \<Rightarrow>
          (if is_init (uri ctx1) then main_client lib (main_port ctx1) out1
           else Exited (out1 @ Stderr (''A URI for the request must be supplied.'' @ endl) # usage_text) 1))"
  unfolding main_args parse_args_append[OF assms] ..


text \<open>The MQTT operations of a run: the parser does none, the client at most the one \<^verbatim>\<open>Connect\<close>.\<close>

lemma parse_case_ops: "mqtt_ops (actions (s_parse_case lib c st ctx out)) = mqtt_ops out"
  by (simp add: s_parse_case_def s_usage_def usage_text_def Let_def)

lemma loop_ops: "mqtt_ops (actions (s_parse_loop lib st ctx out)) = mqtt_ops out"
proof (induction lib st ctx out rule: s_parse_loop.induct)
  case (1 lib st ctx out)
  let ?r = "aws_cli_getopt_long optstring s_long_options st"
  show ?case
  proof (cases "fst ?r = - 1")
    case True
    then show ?thesis by (subst s_parse_loop.simps) (simp add: Let_def)
  next
    case False
    show ?thesis
    proof (cases "s_parse_case lib (fst ?r) (snd ?r) ctx out")
      case (Exited out1 code)
      with False parse_case_ops[of lib "fst ?r" "snd ?r" ctx out] show ?thesis
        by (subst s_parse_loop.simps) (simp add: Let_def)
    next
      case (Blocked out1)
      with False parse_case_ops[of lib "fst ?r" "snd ?r" ctx out] show ?thesis
        by (subst s_parse_loop.simps) (simp add: Let_def)
    next
      case (Proceed out1 ctx1)
      from "1.IH"[OF refl False Proceed] Proceed False parse_case_ops[of lib "fst ?r" "snd ?r" ctx out]
      show ?thesis
        by (subst s_parse_loop.simps) (simp add: Let_def)
    qed
  qed
qed

lemma parse_options_ops: "mqtt_ops (actions (s_parse_options lib argv ctx out)) = mqtt_ops out"
  using loop_ops[of lib "cli_initial argv" ctx out]
  by (cases "s_parse_loop lib (cli_initial argv) ctx out")
     (simp_all add: s_parse_options_def s_usage_def usage_text_def)

lemma main_config_port [simp]: "main_config (main_port ctx) = main_config ctx"
  by (simp add: main_config_def main_port_def)

lemma client_created_port [simp]: "client_created lib (main_port ctx) = client_created lib ctx"
  by (simp add: client_created_def)

lemma main_connect_ops:
  "mqtt_ops (actions (main_connect lib out)) = mqtt_ops out @ [Connect (''test-'' @ uuid lib) False 1000]"
  by (simp add: main_connect_def Let_def onConnectionCompleted_def split: outcome.split option.split prod.split)

lemma main_logging_ops [simp]: "mqtt_ops (main_logging ctx # acts) = mqtt_ops acts"
  by (simp add: main_logging_def split: option.split)

lemma main_client_ops:
  "mqtt_ops (actions (main_client lib ctx out)) =
     mqtt_ops out @ (if client_created lib ctx then [Connect (''test-'' @ uuid lib) False 1000] else [])"
  by (simp add: main_client_def client_created_def Let_def main_connect_ops split: outcome.split)

text \<open>The context after a successful parse, and the start of what \<^verbatim>\<open>main\<close> does with it.\<close>

lemma parse_options_proceed:
  assumes "s_parse_options lib argv app_ctx_initial [] = Proceed out ctx"
  shows "\<exists>prog args. argv = prog # args \<and> parse_args lib args app_ctx_initial [] = Proceed out ctx
           \<and> is_init (uri ctx)"
proof (cases argv)
  case Nil
  with assms show ?thesis
    by (simp add: parse_options_no_args app_ctx_initial_def app_ctx_zero_def empty_uri_def)
next
  case (Cons prog args)
  with assms show ?thesis
    by (auto simp: parse_options_args split: run.splits if_splits)
qed

lemma initial_fields:
  "port app_ctx_initial = 443" "connect_timeout app_ctx_initial = 3000"
  "\<not> is_init (uri app_ctx_initial)" "TraceFile app_ctx_initial = None"
  "LogLevel app_ctx_initial = AWS_LL_NONE" "cacert app_ctx_initial = None"
  by (simp_all add: app_ctx_initial_def app_ctx_zero_def empty_uri_def)

lemma main_client_reads:
  assumes "main_logging c1 = main_logging c2" and "main_config c1 = main_config c2"
  shows "main_client lib c1 out = main_client lib c2 out"
  unfolding main_client_def assms ..

lemma main_logging_port [simp]: "main_logging (main_port ctx) = main_logging ctx"
  by (simp add: main_logging_def main_port_def split: option.split)

lemma main_connect_actions: "\<exists>more. actions (main_connect lib out) = out @ more"
  by (simp add: main_connect_def Let_def split: outcome.split option.split prod.split)

lemma main_client_actions:
  "\<exists>more. actions (main_client lib ctx out) = out @ main_logging ctx # more"
proof -
  obtain more where
    "actions (main_connect lib (out @ [main_logging ctx, CreateCredentialsProviderChainDefault,
        Build (main_config ctx), NewConnection (main_config ctx)])) =
     (out @ [main_logging ctx, CreateCredentialsProviderChainDefault,
        Build (main_config ctx), NewConnection (main_config ctx)]) @ more"
    using main_connect_actions by blast
  then show ?thesis
    by (simp add: main_client_def Let_def split: outcome.split)
qed



lemma connection_fails_port [simp]: "connection_fails lib (main_port ctx) = connection_fails lib ctx"
  by (simp add: connection_fails_def)

lemma parse_case_exit:
  assumes "s_parse_case lib c st ctx out = Exited out1 code"
  shows "(c = chr CHR ''h'' \<and> code = 0 \<and> out1 = out @ usage_text)
       \<or> (c \<noteq> chr CHR ''h'' \<and> code = 1 \<and> (\<exists>msg. out1 = out @ Stderr msg # usage_text))"
  using assms
  by (auto simp: s_parse_case_def s_usage_def Let_def split: if_splits)

section \<open>The rest of a run\<close>

text \<open>\<open>run_from\<close>, argument by argument, and \<^verbatim>\<open>main\<close> after accepted arguments.\<close>

lemma main_run_from: "main lib (prog # args) = run_from lib args app_ctx_initial []"
  unfolding run_from_def by (rule main_args)

lemma run_from_append:
  "parse_args lib pre ctx0 out0 = Proceed out ctx \<Longrightarrow>
   run_from lib (pre @ post) ctx0 out0 = run_from lib post ctx out"
  unfolding run_from_def by (simp only: parse_args_append)

lemma main_pre:
  "parse_args lib pre app_ctx_initial [] = Proceed out ctx \<Longrightarrow>
   main lib (prog # pre @ post) = run_from lib post ctx out"
  unfolding main_run_from by (rule run_from_append)

lemma run_from_Nil:
  "run_from lib [] ctx out =
     (if is_init (uri ctx) then main_client lib (main_port ctx) out
      else Exited (out @ Stderr (''A URI for the request must be supplied.'' @ endl) # usage_text) 1)"
  unfolding run_from_def parse_args_Nil by simp

lemma run_from_help:
  "option_char a = Some (chr CHR ''h'') \<Longrightarrow> run_from lib (a # rest) ctx out = Exited (out @ usage_text) 0"
  unfolding run_from_def by (simp add: parse_args_help s_usage_def)


lemma run_from_positional:
  "\<not> is_option_arg u \<Longrightarrow>
   run_from lib (u # rest) ctx out =
     (if is_init (Uri lib u) then
        run_from lib rest (ctx\<lparr>uri := Uri lib u\<rparr>)
          (out @ [Stderr (''Success to parse uri '' @ dquote @ u @ GetFullUri (Uri lib u) @ endl)])
      else
        Exited (out @ Stderr (''Failed to parse uri '' @ dquote @ u @ dquote @ '' with error ''
                                @ ErrorDebugString lib (LastError (Uri lib u)) @ endl) # usage_text) 1)"
  unfolding run_from_def by (simp add: parse_args_positional s_usage_def del: append.simps)

lemma run_from_verbose:
  "option_char a = Some (chr CHR ''v'') \<Longrightarrow>
   run_from lib (a # x # rest) ctx out =
     (case accepted_level lib x of
        None \<Rightarrow> Exited (out @ Stderr (''unsupported log level '' @ x @ endl) # usage_text) 1
      | Some l \<Rightarrow> run_from lib rest (ctx\<lparr>LogLevel := l\<rparr>) out)"
  unfolding run_from_def by (simp add: parse_args_verbose s_usage_def split: option.split)

lemma run_from_cert:
  "option_char a = Some (chr CHR ''c'') \<Longrightarrow>
   run_from lib (a # x # rest) ctx out = run_from lib rest (ctx\<lparr>cert := Some x\<rparr>) out"
  unfolding run_from_def by (simp add: parse_args_cert)

lemma run_from_key:
  "option_char a = Some (chr CHR ''e'') \<Longrightarrow>
   run_from lib (a # x # rest) ctx out = run_from lib rest (ctx\<lparr>key := Some x\<rparr>) out"
  unfolding run_from_def by (simp add: parse_args_key)

section \<open>Contexts that differ in unread fields\<close>

text \<open>
  The switch, the loop and the rest of \<^verbatim>\<open>main\<close> take contexts that agree on the fields
  they read to results that agree in the same way, with the same output.
\<close>

lemma same_used_refl [simp]: "same_used c c"
  by (simp add: same_used_def)

lemma same_used_unused [simp]:
  "same_used (c1\<lparr>cert := x\<rparr>) c2 = same_used c1 c2"
  "same_used (c1\<lparr>key := y\<rparr>) c2 = same_used c1 c2"
  "same_used (c1\<lparr>connect_timeout := t\<rparr>) c2 = same_used c1 c2"
  "same_used c1 (c2\<lparr>cert := x\<rparr>) = same_used c1 c2"
  "same_used c1 (c2\<lparr>key := y\<rparr>) = same_used c1 c2"
  "same_used c1 (c2\<lparr>connect_timeout := t\<rparr>) = same_used c1 c2"
  by (simp_all add: same_used_def)

lemma parse_case_same_used:
  assumes "same_used c1 c2"
  shows "rel_run same_used (s_parse_case lib c st c1 out) (s_parse_case lib c st c2 out)"
  using assms
  by (simp add: s_parse_case_def s_usage_def Let_def) (simp add: same_used_def)

lemma loop_same_used:
  "same_used c1 c2 \<Longrightarrow> rel_run same_used (s_parse_loop lib st c1 out) (s_parse_loop lib st c2 out)"
proof (induction lib st c1 out arbitrary: c2 rule: s_parse_loop.induct)
  case (1 lib st c1 out)
  let ?r = "aws_cli_getopt_long optstring s_long_options st"
  show ?case
  proof (cases "fst ?r = - 1")
    case True
    with "1.prems" show ?thesis
      by (subst s_parse_loop.simps, subst (2) s_parse_loop.simps) (simp add: Let_def)
  next
    case False
    note rel = parse_case_same_used[OF "1.prems", of lib "fst ?r" "snd ?r" out]
    show ?thesis
    proof (cases "s_parse_case lib (fst ?r) (snd ?r) c1 out")
      case (Exited out1 code)
      with rel have "s_parse_case lib (fst ?r) (snd ?r) c2 out = Exited out1 code"
        by (cases "s_parse_case lib (fst ?r) (snd ?r) c2 out") simp_all
      with Exited False show ?thesis
        by (subst s_parse_loop.simps, subst (2) s_parse_loop.simps) (simp add: Let_def)
    next
      case (Blocked out1)
      with rel have "s_parse_case lib (fst ?r) (snd ?r) c2 out = Blocked out1"
        by (cases "s_parse_case lib (fst ?r) (snd ?r) c2 out") simp_all
      with Blocked False show ?thesis
        by (subst s_parse_loop.simps, subst (2) s_parse_loop.simps) (simp add: Let_def)
    next
      case (Proceed out1 c1')
      with rel obtain c2' where
        p2: "s_parse_case lib (fst ?r) (snd ?r) c2 out = Proceed out1 c2'" and s: "same_used c1' c2'"
        by (cases "s_parse_case lib (fst ?r) (snd ?r) c2 out") simp_all
      from "1.IH"[OF refl False Proceed s] Proceed p2 False show ?thesis
        by (subst s_parse_loop.simps, subst (2) s_parse_loop.simps) (simp add: Let_def)
    qed
  qed
qed

lemma main_client_same_used:
  assumes "same_used c1 c2"
  shows "main_client lib (main_port c1) out = main_client lib (main_port c2) out"
proof (rule main_client_reads)
  show "main_logging (main_port c1) = main_logging (main_port c2)"
    unfolding main_logging_port using assms
    by (simp add: same_used_def main_logging_def split: option.split)
  show "main_config (main_port c1) = main_config (main_port c2)"
    unfolding main_config_port using assms by (simp add: same_used_def main_config_def)
qed

lemma run_from_same_used:
  assumes "same_used c1 c2"
  shows "run_from lib args c1 out = run_from lib args c2 out"
proof -
  note rel = loop_same_used[OF assms, of lib "scanning args" out, folded parse_args_def]
  show ?thesis
  proof (cases "parse_args lib args c1 out")
    case (Exited out1 code)
    with rel have "parse_args lib args c2 out = Exited out1 code"
      by (cases "parse_args lib args c2 out") simp_all
    with Exited show ?thesis by (simp add: run_from_def)
  next
    case (Blocked out1)
    with rel have "parse_args lib args c2 out = Blocked out1"
      by (cases "parse_args lib args c2 out") simp_all
    with Blocked show ?thesis by (simp add: run_from_def)
  next
    case (Proceed out1 c1')
    with rel obtain c2' where p2: "parse_args lib args c2 out = Proceed out1 c2'" and s: "same_used c1' c2'"
      by (cases "parse_args lib args c2 out") simp_all
    from s have "uri c1' = uri c2'" by (simp add: same_used_def)
    with Proceed p2 main_client_same_used[OF s, of lib out1] show ?thesis by (simp add: run_from_def)
  qed
qed

section \<open>Runs that differ in the port of the URI\<close>

text \<open>
  The switch, the loop and the rest of \<^verbatim>\<open>main\<close> take contexts that agree on what reaches
  the libraries to results that agree in the same way, after the same calls into the
  libraries: no step reads the port of the URI or \<^verbatim>\<open>app_ctx.port\<close> on the way to a call.
\<close>

lemma library_calls_append [simp]: "library_calls (xs @ ys) = library_calls xs @ library_calls ys"
  by (simp add: library_calls_def)

lemma library_calls_simps [simp]:
  "library_calls [] = []"
  "library_calls (Stderr s # xs) = library_calls xs"
  "library_calls (Stdout s # xs) = library_calls xs"
  "library_calls (InitializeLogging l t # xs) = InitializeLogging l t # library_calls xs"
  "library_calls (CreateCredentialsProviderChainDefault # xs) = CreateCredentialsProviderChainDefault # library_calls xs"
  "library_calls (Build c # xs) = Build c # library_calls xs"
  "library_calls (NewConnection c # xs) = NewConnection c # library_calls xs"
  "library_calls (Mqtt m # xs) = Mqtt m # library_calls xs"
  by (simp_all add: library_calls_def)

lemma library_calls_usage [simp]: "library_calls usage_text = []"
  by (simp add: usage_text_def)

lemma same_outcome_calls:
  "same_outcome R r1 r2 \<Longrightarrow>
   library_calls (actions r1) = library_calls (actions r2) \<and> exited_with r1 = exited_with r2"
  by (cases r1; cases r2) simp_all

lemma parse_case_same_connection:
  assumes "same_connection c1 c2" and "library_calls o1 = library_calls o2"
  shows "same_outcome same_connection (s_parse_case lib c st c1 o1) (s_parse_case lib c st c2 o2)"
  using assms
  by (simp add: s_parse_case_def s_usage_def Let_def) (simp add: same_connection_def)

lemma loop_same_connection:
  "same_connection c1 c2 \<Longrightarrow> library_calls o1 = library_calls o2 \<Longrightarrow>
   same_outcome same_connection (s_parse_loop lib st c1 o1) (s_parse_loop lib st c2 o2)"
proof (induction lib st c1 o1 arbitrary: c2 o2 rule: s_parse_loop.induct)
  case (1 lib st c1 o1)
  let ?r = "aws_cli_getopt_long optstring s_long_options st"
  show ?case
  proof (cases "fst ?r = - 1")
    case True
    with "1.prems" show ?thesis
      by (subst s_parse_loop.simps, subst (2) s_parse_loop.simps) (simp add: Let_def)
  next
    case False
    note rel = parse_case_same_connection[OF "1.prems", of lib "fst ?r" "snd ?r"]
    show ?thesis
    proof (cases "s_parse_case lib (fst ?r) (snd ?r) c1 o1")
      case (Exited out1 code)
      with rel obtain out2 where
        "s_parse_case lib (fst ?r) (snd ?r) c2 o2 = Exited out2 code"
        and "library_calls out1 = library_calls out2"
        by (cases "s_parse_case lib (fst ?r) (snd ?r) c2 o2") simp_all
      with Exited False show ?thesis
        by (subst s_parse_loop.simps, subst (2) s_parse_loop.simps) (simp add: Let_def)
    next
      case (Blocked out1)
      with rel obtain out2 where
        "s_parse_case lib (fst ?r) (snd ?r) c2 o2 = Blocked out2"
        and "library_calls out1 = library_calls out2"
        by (cases "s_parse_case lib (fst ?r) (snd ?r) c2 o2") simp_all
      with Blocked False show ?thesis
        by (subst s_parse_loop.simps, subst (2) s_parse_loop.simps) (simp add: Let_def)
    next
      case (Proceed out1 c1')
      with rel obtain out2 c2' where
        p2: "s_parse_case lib (fst ?r) (snd ?r) c2 o2 = Proceed out2 c2'"
        and s: "same_connection c1' c2'" and l: "library_calls out1 = library_calls out2"
        by (cases "s_parse_case lib (fst ?r) (snd ?r) c2 o2") simp_all
      from "1.IH"[OF refl False Proceed s l] Proceed p2 False show ?thesis
        by (subst s_parse_loop.simps, subst (2) s_parse_loop.simps) (simp add: Let_def)
    qed
  qed
qed

lemma main_connect_same_calls:
  "library_calls o1 = library_calls o2 \<Longrightarrow>
   same_outcome (=) (main_connect lib o1) (main_connect lib o2)"
  by (simp add: main_connect_def Let_def onConnectionCompleted_def
      split: outcome.split option.split prod.split)

lemma main_client_same_connection:
  assumes "same_connection c1 c2" and "library_calls o1 = library_calls o2"
  shows "same_outcome (=) (main_client lib (main_port c1) o1) (main_client lib (main_port c2) o2)"
proof -
  have l: "main_logging (main_port c1) = main_logging (main_port c2)"
    unfolding main_logging_port using assms(1)
    by (simp add: same_connection_def main_logging_def split: option.split)
  have c: "main_config (main_port c1) = main_config (main_port c2)"
    unfolding main_config_port using assms(1) by (simp add: same_connection_def main_config_def)
  have m: "same_outcome (=)
      (main_connect lib (o1 @ [main_logging (main_port c2), CreateCredentialsProviderChainDefault,
         Build (main_config (main_port c2)), NewConnection (main_config (main_port c2))]))
      (main_connect lib (o2 @ [main_logging (main_port c2), CreateCredentialsProviderChainDefault,
         Build (main_config (main_port c2)), NewConnection (main_config (main_port c2))]))"
    by (rule main_connect_same_calls) (simp add: assms(2))
  show ?thesis
    unfolding main_client_def l c using m assms(2)
    by (simp add: Let_def main_logging_def split: outcome.split option.split)
qed

lemma run_from_same_connection:
  assumes "same_connection c1 c2" and "library_calls o1 = library_calls o2"
  shows "same_outcome (=) (run_from lib args c1 o1) (run_from lib args c2 o2)"
proof -
  note rel = loop_same_connection[OF assms, of lib "scanning args", folded parse_args_def]
  show ?thesis
  proof (cases "parse_args lib args c1 o1")
    case (Exited out1 code)
    with rel obtain out2 where "parse_args lib args c2 o2 = Exited out2 code"
      and "library_calls out1 = library_calls out2"
      by (cases "parse_args lib args c2 o2") simp_all
    with Exited show ?thesis by (simp add: run_from_def)
  next
    case (Blocked out1)
    with rel obtain out2 where "parse_args lib args c2 o2 = Blocked out2"
      and "library_calls out1 = library_calls out2"
      by (cases "parse_args lib args c2 o2") simp_all
    with Blocked show ?thesis by (simp add: run_from_def)
  next
    case (Proceed out1 c1')
    with rel obtain out2 c2' where p2: "parse_args lib args c2 o2 = Proceed out2 c2'"
      and s: "same_connection c1' c2'" and l: "library_calls out1 = library_calls out2"
      by (cases "parse_args lib args c2 o2") simp_all
    from s have "is_init (uri c1') = is_init (uri c2')" by (simp add: same_connection_def)
    with Proceed p2 main_client_same_connection[OF s l, of lib] l show ?thesis
      by (simp add: run_from_def)
  qed
qed

text \<open>
  Lines 184 to 190 do compute a port: whenever the option parser lets the run go on, the
  URI in the context is initialised and is the URI object of one of the positional
  arguments, and the port that \<^verbatim>\<open>main\<close> leaves in \<^verbatim>\<open>app_ctx.port\<close> is the URI's port
  when that is not 0 (narrowed to 16 bits, so unchanged when it is below 65536) and 443
  when it is 0, that is, when the URI names no port.
\<close>

lemma port_field_resolved:
  assumes "s_parse_options lib argv app_ctx_initial [] = Proceed out ctx"
  shows "is_init (uri ctx)
       \<and> (\<exists>u\<in>set (drop 1 argv). \<not> is_option_arg u \<and> uri ctx = Uri lib u)
       \<and> resolved_port lib argv = Some (if GetPort (uri ctx) = 0 then 443 else GetPort (uri ctx) mod 65536)
       \<and> (0 < GetPort (uri ctx) \<and> GetPort (uri ctx) < 65536 \<longrightarrow>
            resolved_port lib argv = Some (GetPort (uri ctx)))"
proof -
  from parse_options_proceed[OF assms] obtain prog args where
    a: "argv = prog # args" and p: "parse_args lib args app_ctx_initial [] = Proceed out ctx"
    and i: "is_init (uri ctx)" by blast
  note f = parse_args_frame[OF p]
  from f have port: "port ctx = 443" by (simp add: initial_fields)
  from f i have u: "\<exists>u\<in>set (drop 1 argv). \<not> is_option_arg u \<and> uri ctx = Uri lib u"
    unfolding a using initial_fields(3) by auto
  have r: "resolved_port lib argv = Some (unat (port (main_port ctx)))"
    by (simp add: resolved_port_def assms)
  have "unat (port (main_port ctx)) = (if GetPort (uri ctx) = 0 then 443 else GetPort (uri ctx) mod 65536)"
    by (simp add: main_port_def port unat_of_nat)
  with r i u show ?thesis by simp
qed

text \<open>
  The port so computed is not passed on: nothing that \<^verbatim>\<open>main\<close> does after line 190
  reads \<^verbatim>\<open>app_ctx.port\<close>.
\<close>

lemma port_not_passed_on: "main_client lib (ctx\<lparr>port := p\<rparr>) out = main_client lib ctx out"
  by (rule main_client_reads) (simp_all add: main_logging_def main_config_def split: option.split)

section \<open>Facts about the library of section \<open>A library to run the program against\<close>\<close>

text \<open>The level names that pass the program's test, and a URI with a port.\<close>

lemma upper_names:
  "map ascii_upper ''NONE'' = ''NONE''" "map ascii_upper ''FATAL'' = ''FATAL''"
  "map ascii_upper ''ERROR'' = ''ERROR''" "map ascii_upper ''WARN'' = ''WARN''"
  "map ascii_upper ''INFO'' = ''INFO''" "map ascii_upper ''DEBUG'' = ''DEBUG''"
  "map ascii_upper ''TRACE'' = ''TRACE''"
  by (simp_all add: ascii_upper_def)

lemma find_level_names:
  "find_level s_log_level_strings x =
     (let n = map ascii_upper x in
      if n = ''NONE'' then Some AWS_LL_NONE else if n = ''FATAL'' then Some AWS_LL_FATAL
      else if n = ''ERROR'' then Some AWS_LL_ERROR else if n = ''WARN'' then Some AWS_LL_WARN
      else if n = ''INFO'' then Some AWS_LL_INFO else if n = ''DEBUG'' then Some AWS_LL_DEBUG
      else if n = ''TRACE'' then Some AWS_LL_TRACE else None)"
  unfolding s_log_level_strings_def find_level.simps upper_names Let_def ..

lemma accepted_level_names:
  assumes "string_to_log_level lib = aws_string_to_log_level"
  shows "accepted_level lib x = map_of verbose_levels (map ascii_upper x)"
proof -
  have "accepted_level lib x =
     (let n = map ascii_upper x in
      if n = ''NONE'' then None else if n = ''FATAL'' then None
      else if n = ''ERROR'' then Some AWS_LL_ERROR else if n = ''WARN'' then Some AWS_LL_WARN
      else if n = ''INFO'' then Some AWS_LL_INFO else if n = ''DEBUG'' then Some AWS_LL_DEBUG
      else if n = ''TRACE'' then Some AWS_LL_TRACE else None)"
    unfolding accepted_level_def assms aws_string_to_log_level_def find_level_names Let_def
    by simp
  also have "\<dots> = map_of verbose_levels (map ascii_upper x)"
    unfolding verbose_levels_def Let_def by auto
  finally show ?thesis .
qed

lemma uri_with_port:
  "aws_uri_init_parse ''wss://broker.example:8443/mqtt'' =
     \<lparr>is_init = True, LastError = 0, GetFullUri = ''wss://broker.example:8443/mqtt'',
      GetHostName = ''broker.example'', GetPort = 8443\<rparr>"
  by (simp add: aws_uri_init_parse_def parse_after_scheme_def parse_authority_def c_char_at_def
      digits_value_def is_digit_def Let_def)

section \<open>The specification's claims about the program\<close>

subsection \<open>The scripted workflow\<close>

text \<open>
  \<^bold>\<open>C1\<close>. The claim: a run that parses its arguments and completes the MQTT connect goes
  on to subscribe, publish and unsubscribe before it ends. The comment above \<^verbatim>\<open>main\<close>
  (lines 157 to 174) announces this workflow. The code does not do it: in the run below
  every call succeeds and the connection completes without error, and the only MQTT
  operation of the whole run is the one \<^verbatim>\<open>Connect\<close>; then \<^verbatim>\<open>main\<close> returns 0.
\<close>

theorem connect_only_run:
  "mqtt_ops (actions (main connected_crt [''websocket_app'', ''wss://broker.example'']))
     = [Connect ''test-123e4567-e89b-42d3-a456-426614174000'' False 1000]
   \<and> exited_with (main connected_crt [''websocket_app'', ''wss://broker.example'']) = Some 0"
  by code_simp

subsection \<open>The port\<close>

text \<open>
  \<^bold>\<open>C2\<close>. The claim: for a URI with an explicit port the program connects to that port,
  and for a URI without one to the default port of the scheme. Lines 184 to 190 compute a
  port into \<^verbatim>\<open>app_ctx.port\<close> (lemma \<open>port_field_resolved\<close>), but the field is never read
  again (lemma \<open>port_not_passed_on\<close>): the builder is given the region, the CA file and
  the host name only (lines 224 to 229). What the code does: after arguments that the
  parser accepts, two URIs that the library takes as valid and with the same host name
  lead to the same calls into the libraries, in the same order and with the same
  arguments, and to the same end of the run, whatever their ports are and whatever
  arguments follow.
\<close>

theorem uri_port_not_used:
  assumes "parse_args lib pre app_ctx_initial [] = Proceed out ctx"
    and "\<not> is_option_arg u" and "\<not> is_option_arg v"
    and "is_init (Uri lib u)" and "is_init (Uri lib v)"
    and "GetHostName (Uri lib u) = GetHostName (Uri lib v)"
  shows "library_calls (actions (main lib (prog # pre @ u # rest)))
           = library_calls (actions (main lib (prog # pre @ v # rest)))
       \<and> exited_with (main lib (prog # pre @ u # rest)) = exited_with (main lib (prog # pre @ v # rest))"
proof -
  have s: "same_connection (ctx\<lparr>uri := Uri lib u\<rparr>) (ctx\<lparr>uri := Uri lib v\<rparr>)"
    using assms(4-6) by (simp add: same_connection_def)
  have l: "library_calls (out @ [Stderr (''Success to parse uri '' @ dquote @ u @ GetFullUri (Uri lib u) @ endl)])
         = library_calls (out @ [Stderr (''Success to parse uri '' @ dquote @ v @ GetFullUri (Uri lib v) @ endl)])"
    by simp
  have "same_outcome (=) (main lib (prog # pre @ u # rest)) (main lib (prog # pre @ v # rest))"
    unfolding main_pre[OF assms(1)] run_from_positional[OF assms(2)] run_from_positional[OF assms(3)]
    using run_from_same_connection[OF s l] assms(4,5) by simp
  then show ?thesis by (rule same_outcome_calls)
qed

text \<open>
  The theorem at \<^verbatim>\<open>wss://broker.example:8443/mqtt\<close> and \<^verbatim>\<open>wss://broker.example/mqtt\<close>,
  parsed by the library of section \<open>A library to run the program against\<close>. The port
  8443 is in \<^verbatim>\<open>app_ctx.port\<close> and in none of the calls, which are those of the run for
  the URI without a port.
\<close>

theorem uri_port_not_used_witness:
  "resolved_port connected_crt [''websocket_app'', ''wss://broker.example:8443/mqtt''] = Some 8443
   \<and> library_calls (actions (main connected_crt [''websocket_app'', ''wss://broker.example:8443/mqtt'']))
     = [InitializeLogging AWS_LL_NONE LogToStdout, CreateCredentialsProviderChainDefault,
        Build \<lparr>signing_region = ''us-east-1'', certificate_authority = None, endpoint = ''broker.example''\<rparr>,
        NewConnection \<lparr>signing_region = ''us-east-1'', certificate_authority = None, endpoint = ''broker.example''\<rparr>,
        Mqtt (Connect ''test-123e4567-e89b-42d3-a456-426614174000'' False 1000)]
   \<and> library_calls (actions (main connected_crt [''websocket_app'', ''wss://broker.example:8443/mqtt'']))
     = library_calls (actions (main connected_crt [''websocket_app'', ''wss://broker.example/mqtt'']))
   \<and> exited_with (main connected_crt [''websocket_app'', ''wss://broker.example:8443/mqtt'']) = Some 0"
proof -
  let ?u = "''wss://broker.example:8443/mqtt''" and ?v = "''wss://broker.example/mqtt''"
  let ?c = "app_ctx_initial\<lparr>uri := aws_uri_init_parse ?u\<rparr>"
  have U: "Uri connected_crt = aws_uri_init_parse" by (simp add: connected_crt_def)
  have n: "\<not> is_option_arg ?u" "\<not> is_option_arg ?v" by code_simp+
  have iu: "is_init (aws_uri_init_parse ?u)" "GetPort (aws_uri_init_parse ?u) = 8443"
    "GetHostName (aws_uri_init_parse ?u) = ''broker.example''"
    by (simp_all add: uri_with_port)
  have iv: "is_init (aws_uri_init_parse ?v)" "GetHostName (aws_uri_init_parse ?v) = ''broker.example''"
    by code_simp+
  have p: "s_parse_options connected_crt [''websocket_app'', ?u] app_ctx_initial []
             = Proceed [Stderr (''Success to parse uri '' @ dquote @ ?u @ GetFullUri (aws_uri_init_parse ?u) @ endl)] ?c"
    unfolding parse_options_args parse_args_positional[OF n(1)] U parse_args_Nil using iu(1) by simp
  from port_field_resolved[OF p]
  have 1: "resolved_port connected_crt [''websocket_app'', ?u] = Some 8443" by (simp add: iu)
  have v: "library_calls (actions (main connected_crt [''websocket_app'', ?v]))
     = [InitializeLogging AWS_LL_NONE LogToStdout, CreateCredentialsProviderChainDefault,
        Build \<lparr>signing_region = ''us-east-1'', certificate_authority = None, endpoint = ''broker.example''\<rparr>,
        NewConnection \<lparr>signing_region = ''us-east-1'', certificate_authority = None, endpoint = ''broker.example''\<rparr>,
        Mqtt (Connect ''test-123e4567-e89b-42d3-a456-426614174000'' False 1000)]"
    and e: "exited_with (main connected_crt [''websocket_app'', ?v]) = Some 0"
    by code_simp+
  have h: "parse_args connected_crt [] app_ctx_initial [] = Proceed [] app_ctx_initial"
    by (rule parse_args_Nil)
  from iu(1) iv(1) have i: "is_init (Uri connected_crt ?u)" "is_init (Uri connected_crt ?v)"
    by (simp_all add: U)
  from iu(3) iv(2) have g: "GetHostName (Uri connected_crt ?u) = GetHostName (Uri connected_crt ?v)"
    by (simp add: U)
  from uri_port_not_used[OF h n i g, of "''websocket_app''" "[]"]
  have 2: "library_calls (actions (main connected_crt [''websocket_app'', ?u]))
             = library_calls (actions (main connected_crt [''websocket_app'', ?v]))"
    and 3: "exited_with (main connected_crt [''websocket_app'', ?u])
             = exited_with (main connected_crt [''websocket_app'', ?v])"
    by simp_all
  from 1 2 3 v e show ?thesis by simp
qed

subsection \<open>The option \<^verbatim>\<open>--connect-timeout\<close>\<close>

text \<open>
  \<^bold>\<open>C3\<close>. The claim: an argument vector with \<^verbatim>\<open>--connect-timeout MS\<close> is parsed
  successfully and the value becomes the connect timeout. The table has the entry
  (value \<^verbatim>\<open>'f'\<close>) and the option string has \<^verbatim>\<open>f:\<close>, but the switch has no case for
  \<^verbatim>\<open>'f'\<close>. What the code does: whenever the arguments before it are accepted, an
  argument that names this option, followed by its value, ends the run with
  \<^verbatim>\<open>Unknown option\<close>, the usage text and exit code 1.
\<close>

theorem connect_timeout_reached:
  assumes "parse_args lib pre app_ctx_initial [] = Proceed out ctx"
    and "option_char a = Some (chr CHR ''f'')"
  shows "main lib (prog # pre @ a # x # rest) = Exited (out @ Stderr (''Unknown option'' @ endl) # usage_text) 1"
  unfolding parse_args_pre[OF assms(1)] parse_args_connect_timeout[OF assms(2)]
  by (simp add: s_usage_def)

text \<open>The theorem at the argument vector \<^verbatim>\<open>websocket_app --connect-timeout 5000 wss://broker.example\<close>.\<close>

theorem connect_timeout_reached_witness:
  "main connected_crt [''websocket_app'', ''--connect-timeout'', ''5000'', ''wss://broker.example'']
     = Exited (Stderr (''Unknown option'' @ endl) # usage_text) 1"
proof -
  have p: "parse_args connected_crt [] app_ctx_initial [] = Proceed [] app_ctx_initial"
    by (rule parse_args_Nil)
  have f: "option_char ''--connect-timeout'' = Some (chr CHR ''f'')" by code_simp
  show ?thesis
    using connect_timeout_reached[OF p f, of "''websocket_app''" "''5000''" "[''wss://broker.example'']"]
    by simp
qed

subsection \<open>Exit codes\<close>



text \<open>
  Every exit from the parser is one of these: with code 1 after a message on
  \<^verbatim>\<open>stderr\<close> and the usage text, or with code 0 after the usage text alone, and then an
  argument that names the help option was reached after accepted arguments.
\<close>

lemma parse_args_exit:
  assumes "parse_args lib args ctx out = Exited out1 code"
  shows "(code = 1 \<and> (\<exists>out2 msg. out1 = out2 @ Stderr msg # usage_text))
       \<or> (code = 0 \<and> (\<exists>pre a rest out2 ctx2. args = pre @ a # rest \<and> option_char a = Some (chr CHR ''h'')
                          \<and> parse_args lib pre ctx out = Proceed out2 ctx2 \<and> out1 = out2 @ usage_text))"
  using assms
proof (induction args ctx out rule: parse_args_induct[where lib = lib])
  case (Nil ctx out)
  then show ?case by (simp add: parse_args_Nil)
next
  case (Positional u rest ctx out)
  show ?case
  proof (cases "is_init (Uri lib u)")
    case False
    with Positional.prems Positional.hyps show ?thesis
      by (auto simp: parse_args_positional s_usage_def)
  next
    case True
    let ?ctx = "ctx\<lparr>uri := Uri lib u\<rparr>"
    let ?out = "out @ [Stderr (''Success to parse uri '' @ dquote @ u @ GetFullUri (Uri lib u) @ endl)]"
    have s: "parse_args lib (u # xs) ctx out = parse_args lib xs ?ctx ?out" for xs
      using True by (simp only: parse_args_positional[OF Positional.hyps] if_True)
    from Positional.prems have "parse_args lib rest ?ctx ?out = Exited out1 code" by (simp only: s)
    from Positional.IH[OF True this] show ?thesis
    proof (elim disjE conjE exE)
      fix pre a rest' out2 ctx2
      assume "code = 0" "rest = pre @ a # rest'" "option_char a = Some (chr CHR ''h'')"
        "parse_args lib pre ?ctx ?out = Proceed out2 ctx2" "out1 = out2 @ usage_text"
      then have "u # rest = (u # pre) @ a # rest' \<and> option_char a = Some (chr CHR ''h'')
                 \<and> parse_args lib (u # pre) ctx out = Proceed out2 ctx2 \<and> out1 = out2 @ usage_text"
        by (simp only: s) simp
      with \<open>code = 0\<close> show ?thesis by blast
    qed blast
  qed
next
  case (Unknown a rest ctx out)
  then show ?case by (auto simp: parse_args_unknown s_usage_def)
next
  case (Help a rest ctx out)
  from Help.prems Help.hyps have "code = 0" "out1 = out @ usage_text"
    by (simp_all add: parse_args_help s_usage_def)
  moreover have "a # rest = [] @ a # rest" by simp
  moreover have "parse_args lib [] ctx out = Proceed out ctx" by (rule parse_args_Nil)
  ultimately show ?case using Help.hyps by blast
next
  case (Missing a v ctx out)
  then show ?case by (auto simp: parse_args_value_missing s_usage_def)
next
  case (Value a v x rest ctx out)
  let ?r = "s_parse_case lib v ((scanning [])\<lparr>aws_cli_optarg := Some x\<rparr>) ctx out"
  have s: "parse_args lib (a # x # xs) ctx out =
     (case ?r of Exited out1 code \<Rightarrow> Exited out1 code | Blocked out1 \<Rightarrow> Blocked out1
      | Proceed out1 ctx1 \<Rightarrow> parse_args lib xs ctx1 out1)" for xs
    by (rule parse_args_value'[OF Value.hyps])
  show ?case
  proof (cases ?r)
    case (Exited out2 code2)
    with Value.prems have "out2 = out1" "code2 = code" by (simp_all add: s)
    with parse_case_exit[OF Exited] Value.hyps(2) show ?thesis by blast
  next
    case (Blocked out2)
    with Value.prems show ?thesis by (simp add: s)
  next
    case (Proceed out2 ctx2)
    with Value.prems have "parse_args lib rest ctx2 out2 = Exited out1 code" by (simp add: s)
    from Value.IH[OF Proceed this] show ?thesis
    proof (elim disjE conjE exE)
      fix pre b rest' out3 ctx3
      assume "code = 0" "rest = pre @ b # rest'" "option_char b = Some (chr CHR ''h'')"
        "parse_args lib pre ctx2 out2 = Proceed out3 ctx3" "out1 = out3 @ usage_text"
      then have "a # x # rest = (a # x # pre) @ b # rest' \<and> option_char b = Some (chr CHR ''h'')
                 \<and> parse_args lib (a # x # pre) ctx out = Proceed out3 ctx3 \<and> out1 = out3 @ usage_text"
        by (simp add: s Proceed)
      with \<open>code = 0\<close> show ?thesis by blast
    qed blast
  qed
qed

subsection \<open>Log levels accepted by \<^verbatim>\<open>-v\<close>\<close>

text \<open>
  \<^bold>\<open>C5\<close>, as amended. With the library's level names, an argument that names the verbose
  option, reached after accepted arguments and followed by a level string, is accepted
  exactly when the string is, up to the case of ASCII letters, one of ERROR, WARN, INFO,
  DEBUG, TRACE: then the run goes on with that level in the context; for every other
  string the program prints \<^verbatim>\<open>unsupported log level\<close> and the usage text and exits with
  code 1. (For any library the level is accepted exactly when the library knows the name
  and the level is not below \<^verbatim>\<open>Error\<close>: lemma \<open>run_from_verbose\<close>.)
\<close>

theorem verbose_level_names:
  assumes "parse_args lib pre app_ctx_initial [] = Proceed out ctx"
    and "option_char a = Some (chr CHR ''v'')"
    and "string_to_log_level lib = aws_string_to_log_level"
  shows "main lib (prog # pre @ a # level # rest) =
     (case map_of verbose_levels (map ascii_upper level) of
        None \<Rightarrow> Exited (out @ Stderr (''unsupported log level '' @ level @ endl) # usage_text) 1
      | Some l \<Rightarrow> run_from lib rest (ctx\<lparr>LogLevel := l\<rparr>) out)"
  unfolding main_pre[OF assms(1)] run_from_verbose[OF assms(2)] accepted_level_names[OF assms(3)] ..

text \<open>The theorem at \<^verbatim>\<open>--verbose FATAL\<close>, which is rejected, and at \<^verbatim>\<open>-v debug\<close>, which is accepted.\<close>

theorem verbose_level_names_witness:
  "main connected_crt [''websocket_app'', ''--verbose'', ''FATAL'', ''wss://broker.example'']
     = Exited (Stderr (''unsupported log level FATAL'' @ endl) # usage_text) 1
   \<and> main connected_crt [''websocket_app'', ''-v'', ''debug'', ''wss://broker.example'']
     = run_from connected_crt [''wss://broker.example''] (app_ctx_initial\<lparr>LogLevel := AWS_LL_DEBUG\<rparr>) []"
proof -
  have p: "parse_args connected_crt [] app_ctx_initial [] = Proceed [] app_ctx_initial"
    by (rule parse_args_Nil)
  have a: "option_char ''--verbose'' = Some (chr CHR ''v'')" "option_char ''-v'' = Some (chr CHR ''v'')"
    by code_simp+
  have l: "string_to_log_level connected_crt = aws_string_to_log_level" by (simp add: connected_crt_def)
  have f: "map_of verbose_levels (map ascii_upper ''FATAL'') = None" by code_simp
  have d: "map_of verbose_levels (map ascii_upper ''debug'') = Some AWS_LL_DEBUG" by code_simp
  from verbose_level_names[OF p a(1) l, of "''websocket_app''" "''FATAL''" "[''wss://broker.example'']"]
       verbose_level_names[OF p a(2) l, of "''websocket_app''" "''debug''" "[''wss://broker.example'']"]
  show ?thesis unfolding f d by simp
qed

text \<open>
  The specification gives the set of accepted strings as ERROR, INFO, DEBUG, TRACE. The
  string WARN is not in that set, and the program accepts it: the run goes on,
  logging is initialised at the level \<^verbatim>\<open>Warn\<close>, and \<^verbatim>\<open>main\<close> returns 0.
\<close>

theorem warn_level_accepted:
  "''WARN'' \<notin> {''ERROR'', ''INFO'', ''DEBUG'', ''TRACE''}
   \<and> exited_with (main connected_crt [''websocket_app'', ''-v'', ''WARN'', ''wss://broker.example'']) = Some 0
   \<and> InitializeLogging AWS_LL_WARN LogToStdout
        \<in> set (actions (main connected_crt [''websocket_app'', ''-v'', ''WARN'', ''wss://broker.example'']))"
  by code_simp

subsection \<open>Which URIs are rejected\<close>

text \<open>
  \<^bold>\<open>C6\<close>, as amended. A positional argument, reached after accepted arguments, ends the
  run with \<^verbatim>\<open>Failed to parse uri\<close>, the usage text and exit code 1 exactly when the
  \<^verbatim>\<open>Io::Uri\<close> made of it is not initialised; otherwise the run goes on with that URI,
  whatever its host and scheme are. And when the arguments end and no URI has been
  accepted, the run ends with \<^verbatim>\<open>A URI for the request must be supplied.\<close>, the usage
  text and exit code 1. The program has no test of the host or of the scheme.
\<close>

theorem uri_checked_by_parser_only:
  assumes "parse_args lib pre app_ctx_initial [] = Proceed out ctx"
    and "\<not> is_option_arg u"
  shows "main lib (prog # pre @ u # rest) =
     (if is_init (Uri lib u) then
        run_from lib rest (ctx\<lparr>uri := Uri lib u\<rparr>)
          (out @ [Stderr (''Success to parse uri '' @ dquote @ u @ GetFullUri (Uri lib u) @ endl)])
      else
        Exited (out @ Stderr (''Failed to parse uri '' @ dquote @ u @ dquote @ '' with error ''
                                @ ErrorDebugString lib (LastError (Uri lib u)) @ endl) # usage_text) 1)
   \<and> main lib (prog # pre) =
     (if is_init (uri ctx) then main_client lib (main_port ctx) out
      else Exited (out @ Stderr (''A URI for the request must be supplied.'' @ endl) # usage_text) 1)"
proof -
  have e: "main lib (prog # pre) = run_from lib [] ctx out"
    using main_pre[OF assms(1), of prog "[]"] by simp
  show ?thesis
    unfolding e main_pre[OF assms(1)] run_from_positional[OF assms(2)] run_from_Nil by simp
qed

text \<open>
  The theorem at a string that the library does not parse, at a URI with the scheme
  \<^verbatim>\<open>ftp\<close>, and at an argument vector without a URI.
\<close>

theorem uri_checked_by_parser_only_witness:
  "main connected_crt [''websocket_app'', ''-l'', ''trace.log'', ''wss://'']
     = Exited (Stderr (''Failed to parse uri '' @ dquote @ ''wss://'' @ dquote @ '' with error ''
                         @ aws_error_debug_str malformed_input_string @ endl) # usage_text) 1
   \<and> main connected_crt [''websocket_app'', ''-l'', ''trace.log'', ''ftp://files.example/pub'', ''-h'']
     = Exited (Stderr (''Success to parse uri '' @ dquote @ ''ftp://files.example/pub''
                         @ ''ftp://files.example/pub'' @ endl) # usage_text) 0
   \<and> main connected_crt [''websocket_app'', ''-l'', ''trace.log'']
     = Exited (Stderr (''A URI for the request must be supplied.'' @ endl) # usage_text) 1"
proof -
  let ?ctx = "app_ctx_initial\<lparr>TraceFile := Some ''trace.log''\<rparr>"
  let ?f = "''ftp://files.example/pub''"
  have p: "parse_args connected_crt [''-l'', ''trace.log''] app_ctx_initial [] = Proceed [] ?ctx"
    by code_simp
  have u: "\<not> is_option_arg ''wss://''" "\<not> is_option_arg ?f" by code_simp+
  have i: "is_init (Uri connected_crt ''wss://'') = False" "is_init (Uri connected_crt ?f) = True"
    "is_init (uri ?ctx) = False"
    by code_simp+
  have e: "ErrorDebugString connected_crt (LastError (Uri connected_crt ''wss://''))
              = aws_error_debug_str malformed_input_string"
    "GetFullUri (Uri connected_crt ?f) = ?f"
    by code_simp+
  have h: "option_char ''-h'' = Some (chr CHR ''h'')" by code_simp
  have l: "''websocket_app'' # [''-l'', ''trace.log''] @ ''wss://'' # [] = [''websocket_app'', ''-l'', ''trace.log'', ''wss://'']"
    "''websocket_app'' # [''-l'', ''trace.log''] @ ?f # [''-h''] = [''websocket_app'', ''-l'', ''trace.log'', ?f, ''-h'']"
    by simp_all
  note a = uri_checked_by_parser_only[OF p u(1), of "''websocket_app''" "[]", unfolded l i e if_False if_True]
  note b = uri_checked_by_parser_only[OF p u(2), of "''websocket_app''" "[''-h'']", unfolded l i e if_False if_True
             run_from_help[OF h]]
  from a b show ?thesis by simp
qed

text \<open>
  The specification says that a URI whose scheme is not mqtt, mqtts or wss is rejected.
  The URI \<^verbatim>\<open>http://example.com\<close> is accepted: the configuration is built for
  the host \<^verbatim>\<open>example.com\<close> and the run ends with \<^verbatim>\<open>main\<close> returning 0.
\<close>

theorem http_uri_accepted:
  "exited_with (main connected_crt [''websocket_app'', ''http://example.com'']) = Some 0
   \<and> Build \<lparr>signing_region = ''us-east-1'', certificate_authority = None, endpoint = ''example.com''\<rparr>
        \<in> set (actions (main connected_crt [''websocket_app'', ''http://example.com'']))"
  by code_simp

subsection \<open>Threads\<close>

text \<open>
  \<^bold>\<open>C7\<close> is about which thread waits and about callbacks that do not hold up the thread
  of the I/O loop. The model has one thread of control: the callback
  \<open>onConnectionCompleted\<close> is a function, and the wait of \<^verbatim>\<open>main\<close> is the place where
  \<open>main_connect\<close> reads \<open>connection_completed\<close>. Nothing here says which thread runs
  what, so the claim has no statement in this theory.
\<close>

subsection \<open>Fields that are written and never read\<close>

text \<open>
  \<^bold>\<open>C8\<close>. The configuration that \<^verbatim>\<open>main\<close> builds is made of the region \<^verbatim>\<open>us-east-1\<close>,
  the CA file and the host name of the URI, and does not change when \<^verbatim>\<open>cert\<close>, \<^verbatim>\<open>key\<close>
  and \<^verbatim>\<open>connect_timeout\<close> do. More: from any point of the option loop on, the whole rest
  of the run is the same for contexts that differ in these three fields only. The values
  of \<^verbatim>\<open>--cert\<close> and \<^verbatim>\<open>--key\<close> are stored in the context, \<^verbatim>\<open>connect_timeout\<close> is 3000
  at the start and after any successful parse, and two argument vectors that differ only
  in the value given to \<^verbatim>\<open>--cert\<close> or to \<^verbatim>\<open>--key\<close> have the same run.
\<close>

theorem cert_key_timeout_unused:
  "main_config (ctx\<lparr>cert := c, key := k, connect_timeout := t\<rparr>) = main_config ctx
   \<and> main_config ctx =
       \<lparr>signing_region = ''us-east-1'', certificate_authority = cacert ctx, endpoint = GetHostName (uri ctx)\<rparr>
   \<and> run_from lib args (ctx\<lparr>cert := c, key := k, connect_timeout := t\<rparr>) out = run_from lib args ctx out
   \<and> connect_timeout app_ctx_initial = 3000
   \<and> (s_parse_options lib argv app_ctx_initial [] = Proceed out1 ctx1 \<longrightarrow> connect_timeout ctx1 = 3000)
   \<and> (option_char a = Some (chr CHR ''c'') \<longrightarrow>
        parse_args lib (a # x # rest) ctx out = parse_args lib rest (ctx\<lparr>cert := Some x\<rparr>) out)
   \<and> (option_char a = Some (chr CHR ''e'') \<longrightarrow>
        parse_args lib (a # x # rest) ctx out = parse_args lib rest (ctx\<lparr>key := Some x\<rparr>) out)
   \<and> (parse_args lib pre app_ctx_initial [] = Proceed out2 ctx2
        \<and> (option_char a = Some (chr CHR ''c'') \<or> option_char a = Some (chr CHR ''e'')) \<longrightarrow>
        main lib (prog # pre @ a # x # rest) = main lib (prog # pre @ a # y # rest))"
proof -
  have 1: "main_config (ctx\<lparr>cert := c, key := k, connect_timeout := t\<rparr>) = main_config ctx"
    by (simp add: main_config_def)
  have 2: "main_config ctx =
       \<lparr>signing_region = ''us-east-1'', certificate_authority = cacert ctx, endpoint = GetHostName (uri ctx)\<rparr>"
    by (simp add: main_config_def)
  have 3: "run_from lib args (ctx\<lparr>cert := c, key := k, connect_timeout := t\<rparr>) out = run_from lib args ctx out"
    by (rule run_from_same_used) simp
  have 5: "connect_timeout ctx1 = 3000" if "s_parse_options lib argv app_ctx_initial [] = Proceed out1 ctx1"
    using parse_options_proceed[OF that] parse_args_frame[of lib _ app_ctx_initial "[]" out1 ctx1]
    by (auto simp: initial_fields)
  have 8: "main lib (prog # pre @ a # x # rest) = main lib (prog # pre @ a # y # rest)"
    if p: "parse_args lib pre app_ctx_initial [] = Proceed out2 ctx2"
      and a: "option_char a = Some (chr CHR ''c'') \<or> option_char a = Some (chr CHR ''e'')"
  proof -
    have c: "run_from lib rest (ctx2\<lparr>cert := Some x\<rparr>) out2 = run_from lib rest ctx2 out2" for x
      by (rule run_from_same_used) simp
    have k: "run_from lib rest (ctx2\<lparr>key := Some x\<rparr>) out2 = run_from lib rest ctx2 out2" for x
      by (rule run_from_same_used) simp
    have "run_from lib (a # x # rest) ctx2 out2 = run_from lib rest ctx2 out2" for x
      using a by (auto simp: run_from_cert run_from_key c k)
    then show ?thesis unfolding main_pre[OF p] by simp
  qed
  from 1 2 3 5 8 show ?thesis
    by (simp add: initial_fields parse_args_cert parse_args_key)
qed

text \<open>
  The theorem at argument vectors that differ in the value of \<^verbatim>\<open>--cert\<close>, and of
  \<^verbatim>\<open>--key\<close>, and at the context that the parser makes of \<^verbatim>\<open>--cacert ca.pem wss://broker.example\<close>.
\<close>

theorem cert_key_timeout_unused_witness:
  "main connected_crt [''websocket_app'', ''--cacert'', ''ca.pem'', ''--cert'', ''a.pem'', ''wss://broker.example'']
     = main connected_crt [''websocket_app'', ''--cacert'', ''ca.pem'', ''--cert'', ''b.pem'', ''wss://broker.example'']
   \<and> main connected_crt [''websocket_app'', ''--cacert'', ''ca.pem'', ''--key'', ''a.key'', ''wss://broker.example'']
     = main connected_crt [''websocket_app'', ''--cacert'', ''ca.pem'', ''--key'', ''b.key'', ''wss://broker.example'']
   \<and> connect_timeout (app_ctx_initial\<lparr>cacert := Some ''ca.pem'', uri := aws_uri_init_parse ''wss://broker.example''\<rparr>) = 3000"
proof -
  let ?u = "''wss://broker.example''"
  let ?c = "app_ctx_initial\<lparr>cacert := Some ''ca.pem''\<rparr>"
  have p: "parse_args connected_crt [''--cacert'', ''ca.pem''] app_ctx_initial [] = Proceed [] ?c"
    by code_simp
  have o: "option_char ''--cert'' = Some (chr CHR ''c'')" "option_char ''--key'' = Some (chr CHR ''e'')"
    by code_simp+
  have q: "s_parse_options connected_crt [''websocket_app'', ''--cacert'', ''ca.pem'', ?u] app_ctx_initial []
     = Proceed [Stderr (''Success to parse uri '' @ dquote @ ?u @ ?u @ endl)]
         (app_ctx_initial\<lparr>cacert := Some ''ca.pem'', uri := aws_uri_init_parse ?u\<rparr>)"
    by code_simp
  note a = cert_key_timeout_unused[where lib = connected_crt and pre = "[''--cacert'', ''ca.pem'']"
      and ?out2.0 = "[]" and ?ctx2.0 = ?c and a = "''--cert''" and prog = "''websocket_app''"
      and x = "''a.pem''" and y = "''b.pem''" and rest = "[?u]"
      and argv = "[''websocket_app'', ''--cacert'', ''ca.pem'', ?u]"
      and ?out1.0 = "[Stderr (''Success to parse uri '' @ dquote @ ?u @ ?u @ endl)]"
      and ?ctx1.0 = "app_ctx_initial\<lparr>cacert := Some ''ca.pem'', uri := aws_uri_init_parse ?u\<rparr>"]
  note b = cert_key_timeout_unused[where lib = connected_crt and pre = "[''--cacert'', ''ca.pem'']"
      and ?out2.0 = "[]" and ?ctx2.0 = ?c and a = "''--key''" and prog = "''websocket_app''"
      and x = "''a.key''" and y = "''b.key''" and rest = "[?u]"]
  from a p o(1) q have 1: "main connected_crt [''websocket_app'', ''--cacert'', ''ca.pem'', ''--cert'', ''a.pem'', ?u]
     = main connected_crt [''websocket_app'', ''--cacert'', ''ca.pem'', ''--cert'', ''b.pem'', ?u]"
    and 3: "connect_timeout (app_ctx_initial\<lparr>cacert := Some ''ca.pem'', uri := aws_uri_init_parse ?u\<rparr>) = 3000"
    by simp_all
  from b p o(2) have 2: "main connected_crt [''websocket_app'', ''--cacert'', ''ca.pem'', ''--key'', ''a.key'', ?u]
     = main connected_crt [''websocket_app'', ''--cacert'', ''ca.pem'', ''--key'', ''b.key'', ?u]"
    by simp
  from 1 2 3 show ?thesis by blast
qed

subsection \<open>Logging\<close>

text \<open>
  \<^bold>\<open>C9\<close>. Whenever the option parser lets the run go on, the first thing \<^verbatim>\<open>main\<close> does
  after it is to initialise logging, at the level of the context, to the trace file of
  the context if there is one and to \<^verbatim>\<open>stdout\<close> otherwise. The trace file is that of
  the last log option: there is none when no argument names the log option, and it is
  \<open>x\<close> when \<open>x\<close> follows a log option that is reached after accepted arguments and
  has no log option after it. The level is \<^verbatim>\<open>None\<close> when no argument names the verbose
  option, and is the level accepted for the string of the last verbose option.
\<close>

theorem logging_initialised:
  assumes "s_parse_options lib argv app_ctx_initial [] = Proceed out ctx"
  shows "(\<exists>more. actions (main lib argv) =
            out @ InitializeLogging (LogLevel ctx)
                    (case TraceFile ctx of None \<Rightarrow> LogToStdout | Some file \<Rightarrow> LogToFile file) # more)
       \<and> ((\<forall>a\<in>set (drop 1 argv). option_char a \<noteq> Some (chr CHR ''l'')) \<longrightarrow> TraceFile ctx = None)
       \<and> ((\<forall>a\<in>set (drop 1 argv). option_char a \<noteq> Some (chr CHR ''v'')) \<longrightarrow> LogLevel ctx = AWS_LL_NONE)
       \<and> (\<forall>pre a x post out1 ctx1.
             drop 1 argv = pre @ a # x # post
             \<and> parse_args lib pre app_ctx_initial [] = Proceed out1 ctx1
             \<and> option_char a = Some (chr CHR ''l'')
             \<and> (\<forall>b\<in>set post. option_char b \<noteq> Some (chr CHR ''l''))
             \<longrightarrow> TraceFile ctx = Some x)
       \<and> (\<forall>pre a x post out1 ctx1.
             drop 1 argv = pre @ a # x # post
             \<and> parse_args lib pre app_ctx_initial [] = Proceed out1 ctx1
             \<and> option_char a = Some (chr CHR ''v'')
             \<and> (\<forall>b\<in>set post. option_char b \<noteq> Some (chr CHR ''v''))
             \<longrightarrow> accepted_level lib x = Some (LogLevel ctx))"
proof -
  from parse_options_proceed[OF assms] obtain prog args where
    a: "argv = prog # args" and p: "parse_args lib args app_ctx_initial [] = Proceed out ctx"
    and i: "is_init (uri ctx)" by blast
  have d: "drop 1 argv = args" by (simp add: a)
  have m: "main lib argv = main_client lib (main_port ctx) out"
    by (simp add: main_def assms)
  have l: "main_logging ctx = InitializeLogging (LogLevel ctx)
             (case TraceFile ctx of None \<Rightarrow> LogToStdout | Some file \<Rightarrow> LogToFile file)"
    by (simp add: main_logging_def split: option.split)
  have 1: "\<exists>more. actions (main lib argv) =
            out @ InitializeLogging (LogLevel ctx)
                    (case TraceFile ctx of None \<Rightarrow> LogToStdout | Some file \<Rightarrow> LogToFile file) # more"
    using main_client_actions[of lib "main_port ctx" out] unfolding m main_logging_port l .
  note f = parse_args_frame[OF p]
  have 2: "TraceFile ctx = None" if "\<forall>a\<in>set (drop 1 argv). option_char a \<noteq> Some (chr CHR ''l'')"
    using f that unfolding d by (simp add: initial_fields)
  have 3: "LogLevel ctx = AWS_LL_NONE" if "\<forall>a\<in>set (drop 1 argv). option_char a \<noteq> Some (chr CHR ''v'')"
    using f that unfolding d by (simp add: initial_fields)
  have 4: "TraceFile ctx = Some x"
    if "drop 1 argv = pre @ a # x # post" "parse_args lib pre app_ctx_initial [] = Proceed out1 ctx1"
      "option_char a = Some (chr CHR ''l'')" "\<forall>b\<in>set post. option_char b \<noteq> Some (chr CHR ''l'')"
    for pre a x post out1 ctx1
  proof -
    have "parse_args lib post (ctx1\<lparr>TraceFile := Some x\<rparr>) out1 = Proceed out ctx"
      using p that(1) unfolding d by (simp add: parse_args_append[OF that(2)] parse_args_log[OF that(3)])
    from parse_args_frame[OF this] that(4) show ?thesis by simp
  qed
  have 5: "accepted_level lib x = Some (LogLevel ctx)"
    if "drop 1 argv = pre @ a # x # post" "parse_args lib pre app_ctx_initial [] = Proceed out1 ctx1"
      "option_char a = Some (chr CHR ''v'')" "\<forall>b\<in>set post. option_char b \<noteq> Some (chr CHR ''v'')"
    for pre a x post out1 ctx1
  proof -
    have e: "(case accepted_level lib x of
               None \<Rightarrow> s_usage 1 (out1 @ [Stderr (''unsupported log level '' @ x @ endl)])
             | Some l \<Rightarrow> parse_args lib post (ctx1\<lparr>LogLevel := l\<rparr>) out1) = Proceed out ctx"
      using p that(1) unfolding d by (simp add: parse_args_append[OF that(2)] parse_args_verbose[OF that(3)])
    then obtain l where l: "accepted_level lib x = Some l"
      and q: "parse_args lib post (ctx1\<lparr>LogLevel := l\<rparr>) out1 = Proceed out ctx"
      by (cases "accepted_level lib x") simp_all
    from parse_args_frame[OF q] that(4) l show ?thesis by simp
  qed
  from 1 2 3 4 5 show ?thesis by blast
qed

text \<open>
  The theorem at \<^verbatim>\<open>-l trace.log -v INFO\<close>, where logging goes to the file at the level
  \<^verbatim>\<open>Info\<close>, and at an argument vector with neither option, where it goes to
  \<^verbatim>\<open>stdout\<close> at the level \<^verbatim>\<open>None\<close>.
\<close>

theorem logging_initialised_witness:
  "InitializeLogging AWS_LL_INFO (LogToFile ''trace.log'')
     \<in> set (actions (main connected_crt
          [''websocket_app'', ''-l'', ''trace.log'', ''-v'', ''INFO'', ''wss://broker.example'']))
   \<and> InitializeLogging AWS_LL_NONE LogToStdout
     \<in> set (actions (main connected_crt [''websocket_app'', ''wss://broker.example'']))"
proof -
  let ?u = "''wss://broker.example''"
  let ?o = "[Stderr (''Success to parse uri '' @ dquote @ ?u @ ?u @ endl)]"
  let ?argv = "[''websocket_app'', ''-l'', ''trace.log'', ''-v'', ''INFO'', ?u]"
  let ?ctx = "app_ctx_initial\<lparr>TraceFile := Some ''trace.log'', LogLevel := AWS_LL_INFO, uri := aws_uri_init_parse ?u\<rparr>"
  let ?ctxn = "app_ctx_initial\<lparr>uri := aws_uri_init_parse ?u\<rparr>"
  have p: "s_parse_options connected_crt ?argv app_ctx_initial [] = Proceed ?o ?ctx" by code_simp
  have q: "s_parse_options connected_crt [''websocket_app'', ?u] app_ctx_initial [] = Proceed ?o ?ctxn"
    by code_simp
  have e: "parse_args connected_crt [] app_ctx_initial [] = Proceed [] app_ctx_initial"
    by (rule parse_args_Nil)
  have e2: "parse_args connected_crt [''-l'', ''trace.log''] app_ctx_initial []
              = Proceed [] (app_ctx_initial\<lparr>TraceFile := Some ''trace.log''\<rparr>)" by code_simp
  have o: "option_char ''-l'' = Some (chr CHR ''l'')" "option_char ''-v'' = Some (chr CHR ''v'')"
    "option_char ''INFO'' = None" "option_char ?u = None" by code_simp+
  have acc: "accepted_level connected_crt ''INFO'' = Some AWS_LL_INFO" by code_simp
  note t = logging_initialised[OF p]
  from t have "TraceFile ?ctx = Some ''trace.log''"
    by (elim conjE allE[where x = "[]"] allE[where x = "''-l''"] allE[where x = "''trace.log''"]
        allE[where x = "[''-v'', ''INFO'', ?u]"] allE[where x = "app_ctx_initial"]) simp
  moreover from t obtain more where
    "actions (main connected_crt ?argv) =
       ?o @ InitializeLogging (LogLevel ?ctx)
              (case TraceFile ?ctx of None \<Rightarrow> LogToStdout | Some file \<Rightarrow> LogToFile file) # more"
    by blast
  ultimately have 1: "InitializeLogging AWS_LL_INFO (LogToFile ''trace.log'') \<in> set (actions (main connected_crt ?argv))"
    by simp
  note s = logging_initialised[OF q]
  from s o have "TraceFile ?ctxn = None" "LogLevel ?ctxn = AWS_LL_NONE" by simp_all
  moreover from s obtain more where
    "actions (main connected_crt [''websocket_app'', ?u]) =
       ?o @ InitializeLogging (LogLevel ?ctxn)
              (case TraceFile ?ctxn of None \<Rightarrow> LogToStdout | Some file \<Rightarrow> LogToFile file) # more"
    by blast
  ultimately have 2: "InitializeLogging AWS_LL_NONE LogToStdout \<in> set (actions (main connected_crt [''websocket_app'', ?u]))"
    by simp
  from 1 2 show ?thesis ..
qed

subsection \<open>The arguments of \<^verbatim>\<open>Connect\<close>\<close>

text \<open>
  \<^bold>\<open>C10\<close>. The MQTT operations of any run, for any arguments and any answers of the
  library: none if the run ends before \<^verbatim>\<open>Connect\<close> (in the option parser, or because
  the provider, the configuration or the connection could not be made), and otherwise
  exactly one \<^verbatim>\<open>Connect\<close>, with the client id \<^verbatim>\<open>test-\<close> followed by the generated UUID,
  \<^verbatim>\<open>cleanSession\<close> false and a keep-alive of 1000 seconds. The arguments of the call do
  not depend on the command line.
\<close>

theorem connect_call_fixed:
  "mqtt_ops (actions (main lib argv)) =
     (case s_parse_options lib argv app_ctx_initial [] of
        Proceed out ctx \<Rightarrow>
          if client_created lib ctx then [Connect (''test-'' @ uuid lib) False 1000] else []
      | Exited out code \<Rightarrow> []
      | Blocked out \<Rightarrow> [])"
  using parse_options_ops[of lib argv app_ctx_initial "[]"]
  by (cases "s_parse_options lib argv app_ctx_initial []") (simp_all add: main_def main_client_ops)

text \<open>
  The theorem at a run that reaches \<^verbatim>\<open>Connect\<close> and at a run that the option parser
  ends.
\<close>

theorem connect_call_fixed_witness:
  "mqtt_ops (actions (main connected_crt [''websocket_app'', ''--cacert'', ''ca.pem'', ''wss://broker.example'']))
     = [Connect (''test-'' @ uuid connected_crt) False 1000]
   \<and> mqtt_ops (actions (main connected_crt [''websocket_app'', ''--bogus''])) = []"
proof -
  let ?u = "''wss://broker.example''"
  have p: "s_parse_options connected_crt [''websocket_app'', ''--cacert'', ''ca.pem'', ?u] app_ctx_initial []
     = Proceed [Stderr (''Success to parse uri '' @ dquote @ ?u @ ?u @ endl)]
         (app_ctx_initial\<lparr>cacert := Some ''ca.pem'', uri := aws_uri_init_parse ?u\<rparr>)"
    by code_simp
  have c: "client_created connected_crt
             (app_ctx_initial\<lparr>cacert := Some ''ca.pem'', uri := aws_uri_init_parse ?u\<rparr>)"
    by (simp add: client_created_def connected_crt_def)
  have q: "s_parse_options connected_crt [''websocket_app'', ''--bogus''] app_ctx_initial []
     = Exited (Stderr (''Unknown option'' @ endl) # usage_text) 1"
    by code_simp
  from connect_call_fixed[of connected_crt "[''websocket_app'', ''--cacert'', ''ca.pem'', ?u]"]
       connect_call_fixed[of connected_crt "[''websocket_app'', ''--bogus'']"]
  show ?thesis unfolding p q by (simp add: c)
qed

end
